theory Spec2Isabelle
  imports Complex_Main
begin

section \<open>Python values\<close>

text \<open>
  A Python float (\<^verbatim>\<open>Scalar\<close>, a ROS \<^verbatim>\<open>DOUBLE\<close> parameter, a \<^verbatim>\<open>float64\<close> message field) is
  an IEEE 754 binary64 number. Its value is modelled as a real number, and every float
  operation that rounds is modelled by rounding the exact result to the nearest binary64
  number, ties to even (\<open>double\<close>). The exponent is not bounded: overflow to infinity,
  subnormal numbers and NaN are not modelled. Python integers are unbounded and are
  modelled as \<open>int\<close>.
\<close>

type_synonym scalar = real

text \<open>Rounding to the nearest integer, ties to the even one.\<close>

definition round_half_even :: "real \<Rightarrow> int" where
  "round_half_even x =
     (let f = \<lfloor>x\<rfloor>; d = x - of_int f
      in if d < 1 / 2 then f else if 1 / 2 < d then f + 1 else if even f then f else f + 1)"

text \<open>
  Rounding a non-negative number to 53 significant bits: it is scaled by powers of two
  into the range from \<open>2 ^ 52\<close> up to \<open>2 ^ 53\<close>, rounded to an integer there and scaled back.
  The first argument bounds the number of scalings; 1100 covers the binary exponents of
  binary64.
\<close>

fun round53 :: "nat \<Rightarrow> real \<Rightarrow> real" where
  "round53 0 x = x"
| "round53 (Suc k) x =
     (if x = 0 then 0
      else if x < 2 ^ 52 then round53 k (2 * x) / 2
      else if 2 ^ 53 \<le> x then round53 k (x / 2) * 2
      else of_int (round_half_even x))"

definition double :: "real \<Rightarrow> scalar" where
  "double x = (if x < 0 then - round53 1100 (- x) else round53 1100 x)"

text \<open>
  \<^verbatim>\<open>float(n)\<close> on an integer, which \<^verbatim>\<open>x * n\<close> applies to an integer operand, and the product
  of two floats.
\<close>

definition py_float_of_int :: "int \<Rightarrow> scalar" where
  "py_float_of_int n = double (of_int n)"

definition py_float_mul :: "scalar \<Rightarrow> scalar \<Rightarrow> scalar" where
  "py_float_mul a b = double (a * b)"

text \<open>
  \<^verbatim>\<open>divmod(x, 1)\<close> on a float: the floor, which is exact, and the non-negative remainder,
  which is exact for \<open>x \<ge> 0\<close> and is rounded for \<open>x < 0\<close> (there it is \<^verbatim>\<open>fmod(x, 1) + 1\<close>).
\<close>

definition py_divmod1 :: "scalar \<Rightarrow> scalar \<times> scalar" where
  "py_divmod1 x = (of_int \<lfloor>x\<rfloor>, double (x - of_int \<lfloor>x\<rfloor>))"

text \<open>\<^verbatim>\<open>int(x)\<close> on a float truncates towards zero.\<close>

definition py_int :: "scalar \<Rightarrow> int" where
  "py_int x = (if 0 \<le> x then \<lfloor>x\<rfloor> else \<lceil>x\<rceil>)"

text \<open>\<^verbatim>\<open>str(n)\<close> on an integer: its decimal digits, with a minus sign when negative.\<close>

definition digit_char :: "nat \<Rightarrow> char" where
  "digit_char d = ''0123456789'' ! d"

fun str_nat :: "nat \<Rightarrow> string" where
  "str_nat n = (if n < 10 then [digit_char n] else str_nat (n div 10) @ [digit_char (n mod 10)])"

definition py_str :: "int \<Rightarrow> string" where
  "py_str i = (if i < 0 then CHR ''-'' # str_nat (nat (- i)) else str_nat (nat i))"

text \<open>Reading a string of decimal digits back, to say what "the decimal string of n" is.\<close>

definition digit_value :: "char \<Rightarrow> nat" where
  "digit_value c = of_char c - 48"

definition nat_of_digits :: "string \<Rightarrow> nat" where
  "nat_of_digits s = foldl (\<lambda>a c. 10 * a + digit_value c) 0 s"

section \<open>Messages of the physics engine node\<close>

text \<open>
  The message classes come from the package \<^verbatim>\<open>custom_interfaces\<close>; a record holds the
  fields the node assigns, under the names the node uses.
\<close>

record HelperLatLon =
  latitude :: scalar
  longitude :: scalar

record HelperSpeed =
  speed :: scalar

record HelperHeading =
  heading :: scalar

record GPS =
  lat_lon :: HelperLatLon
  speed :: HelperSpeed
  heading :: HelperHeading

record WindSensor =
  speed :: HelperSpeed
  direction :: int

record WindSensors =
  wind_sensors :: "WindSensor list"

record DesiredHeading =
  heading :: HelperHeading

record Vector3 =
  x :: scalar
  y :: scalar
  z :: scalar

record Quaternion =
  x :: scalar
  y :: scalar
  z :: scalar
  w :: scalar

record Pose =
  position :: Vector3
  orientation :: Quaternion

record Twist =
  linear :: Vector3
  angular :: Vector3

record Wrench =
  force :: Vector3
  torque :: Vector3

record Kinematics =
  pose :: Pose
  velocity :: Twist
  acceleration :: Twist
  net_wrench :: Wrench

record Time =
  sec :: int
  nanosec :: int

record Header =
  stamp :: Time
  frame_id :: string

record SimWorldState =
  global_gps :: GPS
  global_reference_kinematics :: Kinematics
  relative_reference_kinematics :: Kinematics
  header :: Header

section \<open>Logging\<close>

text \<open>
  A log line is its severity and the pieces of its f-string: the literal text and the
  formatted values, kept as values (\<open>Fixed2\<close> is the format \<^verbatim>\<open>:.2f\<close>).
\<close>

datatype severity = DEBUG | INFO | WARN | ERROR

datatype fragment =
    Str string
  | Num scalar
  | Fixed2 scalar
  | Repr_GPS GPS
  | Repr_WindSensors WindSensors
  | Repr_DesiredHeading DesiredHeading

type_synonym log_line = "severity \<times> fragment list"

section \<open>The physics engine node\<close>

text \<open>
  \<^verbatim>\<open>boat_simulator.common.constants\<close> is not among the source files: the constants the node
  reads are parameters of the model, together with the ROS parameter \<^verbatim>\<open>pub_period_sec\<close>.
\<close>

record config =
  pub_period_sec :: scalar
  ACTION_SEND_GOAL_TIMEOUT_SEC :: scalar
  GPS_topic :: string
  WIND_SENSORS_topic :: string
  KINEMATICS_topic :: string
  DESIRED_HEADING_topic :: string

text \<open>
  The action client. \<^verbatim>\<open>send_goal_async\<close> returns a future, and the node attaches one
  done-callback to it; \<^verbatim>\<open>get_result_async\<close> on an accepted goal handle returns a second
  future, with one done-callback again. A request is the goal sent and the done-callback
  now attached for it, if any; its goal id is its position in the list of requests.
\<close>

datatype done_callback = Goal_response_callback | Get_result_callback

record SimRudderActuation_Goal =
  desired_heading :: "DesiredHeading option"

record request =
  goal :: SimRudderActuation_Goal
  done_callback :: "done_callback option"

record ClientGoalHandle =
  goal_id :: nat
  accepted :: bool

text \<open>
  The node: its four private attributes, and what its logger, its three publishers and its
  rudder action client have received from it.
\<close>

record PhysicsEngineNode =
  publish_counter :: int
  rudder_angle :: scalar
  sail_trim_tab_angle :: scalar
  desired_heading :: "DesiredHeading option"
  logger :: "log_line list"
  gps_pub :: "GPS list"
  wind_sensors_pub :: "WindSensors list"
  kinematics_pub :: "SimWorldState list"
  rudder_actuation_action_client :: "request list"

definition init_node :: PhysicsEngineNode where
  "init_node = \<lparr>publish_counter = 0, rudder_angle = 0, sail_trim_tab_angle = 0,
     desired_heading = None, logger = [], gps_pub = [], wind_sensors_pub = [],
     kinematics_pub = [], rudder_actuation_action_client = []\<rparr>"

definition log :: "severity \<Rightarrow> fragment list \<Rightarrow> PhysicsEngineNode \<Rightarrow> PhysicsEngineNode" where
  "log sev fs n = n\<lparr>logger := logger n @ [(sev, fs)]\<rparr>"

subsection \<open>Publishing\<close>

definition publish_gps :: "config \<Rightarrow> PhysicsEngineNode \<Rightarrow> PhysicsEngineNode" where
  "publish_gps cfg n =
     (let msg = \<lparr>lat_lon = \<lparr>latitude = 0, longitude = 0\<rparr>,
                 GPS.speed = \<lparr>HelperSpeed.speed = 0\<rparr>,
                 GPS.heading = \<lparr>HelperHeading.heading = 0\<rparr>\<rparr>;
          n1 = n\<lparr>gps_pub := gps_pub n @ [msg]\<rparr>
      in log INFO [Str ''Publishing to '', Str (GPS_topic cfg), Str '': '', Repr_GPS msg] n1)"

definition publish_wind_sensors :: "config \<Rightarrow> PhysicsEngineNode \<Rightarrow> PhysicsEngineNode" where
  "publish_wind_sensors cfg n =
     (let windSensor1 = \<lparr>WindSensor.speed = \<lparr>HelperSpeed.speed = 0\<rparr>, direction = 0\<rparr>;
          windSensor2 = \<lparr>WindSensor.speed = \<lparr>HelperSpeed.speed = 0\<rparr>, direction = 0\<rparr>;
          msg = \<lparr>wind_sensors = [windSensor1, windSensor2]\<rparr>;
          n1 = n\<lparr>wind_sensors_pub := wind_sensors_pub n @ [msg]\<rparr>
      in log INFO [Str ''Publishing to '', Str (WIND_SENSORS_topic cfg), Str '': '',
                   Repr_WindSensors msg] n1)"

definition zero_vector :: Vector3 where
  "zero_vector = \<lparr>Vector3.x = 0, Vector3.y = 0, Vector3.z = 0\<rparr>"

definition rest_kinematics :: Kinematics where
  "rest_kinematics =
     \<lparr>pose = \<lparr>position = zero_vector,
               orientation = \<lparr>Quaternion.x = 0, Quaternion.y = 0, Quaternion.z = 0, w = 1\<rparr>\<rparr>,
      velocity = \<lparr>linear = zero_vector, angular = zero_vector\<rparr>,
      acceleration = \<lparr>linear = zero_vector, angular = zero_vector\<rparr>,
      net_wrench = \<lparr>force = zero_vector, torque = zero_vector\<rparr>\<rparr>"

definition publish_kinematics :: "config \<Rightarrow> PhysicsEngineNode \<Rightarrow> PhysicsEngineNode" where
  "publish_kinematics cfg n =
     (let (sec', nanosec') =
            py_divmod1 (py_float_mul (pub_period_sec cfg) (py_float_of_int (publish_counter n)));
          msg = \<lparr>global_gps = \<lparr>lat_lon = \<lparr>latitude = 0, longitude = 0\<rparr>,
                                GPS.speed = \<lparr>HelperSpeed.speed = 0\<rparr>,
                                GPS.heading = \<lparr>HelperHeading.heading = 0\<rparr>\<rparr>,
                 global_reference_kinematics = rest_kinematics,
                 relative_reference_kinematics = rest_kinematics,
                 header = \<lparr>stamp = \<lparr>sec = py_int sec',
                                     nanosec = py_int (py_float_mul nanosec' (10 ^ 9))\<rparr>,
                            frame_id = py_str (publish_counter n)\<rparr>\<rparr>;
          n1 = n\<lparr>kinematics_pub := kinematics_pub n @ [msg]\<rparr>
      in log INFO [Str ''Publishing to '', Str (KINEMATICS_topic cfg)] n1)"

definition publish :: "config \<Rightarrow> PhysicsEngineNode \<Rightarrow> PhysicsEngineNode" where
  "publish cfg n =
     (let n1 = log INFO [Str ''Publishing simulated sensor and kinematics data''] n;
          n2 = publish_gps cfg n1;
          n3 = publish_wind_sensors cfg n2;
          n4 = publish_kinematics cfg n3
      in n4\<lparr>publish_counter := publish_counter n4 + 1\<rparr>)"

definition desired_heading_sub_callback ::
    "config \<Rightarrow> DesiredHeading \<Rightarrow> PhysicsEngineNode \<Rightarrow> PhysicsEngineNode" where
  "desired_heading_sub_callback cfg msg n =
     (let n1 = log INFO [Str ''Received data from '', Str (DESIRED_HEADING_topic cfg), Str '': '',
                         Repr_DesiredHeading msg] n
      in n1\<lparr>desired_heading := Some msg\<rparr>)"

subsection \<open>The rudder actuation action\<close>

text \<open>
  The calls of the node on its action client. \<^verbatim>\<open>send_goal_async\<close> followed by
  \<^verbatim>\<open>add_done_callback\<close> adds a request with the goal-response callback attached (the
  feedback callback is handed over in the same call); \<^verbatim>\<open>get_result_async\<close> followed by
  \<^verbatim>\<open>add_done_callback\<close> attaches the result callback for the request of the goal handle.
  A goal id that names no request changes nothing (list update out of range).
\<close>

definition send_goal_async ::
    "SimRudderActuation_Goal \<Rightarrow> done_callback \<Rightarrow> PhysicsEngineNode \<Rightarrow> PhysicsEngineNode" where
  "send_goal_async goal_msg cb n =
     n\<lparr>rudder_actuation_action_client :=
         rudder_actuation_action_client n @ [\<lparr>goal = goal_msg, done_callback = Some cb\<rparr>]\<rparr>"

definition set_done_callback ::
    "nat \<Rightarrow> done_callback option \<Rightarrow> PhysicsEngineNode \<Rightarrow> PhysicsEngineNode" where
  "set_done_callback i cb n =
     n\<lparr>rudder_actuation_action_client :=
         (rudder_actuation_action_client n)
           [i := (rudder_actuation_action_client n ! i)\<lparr>done_callback := cb\<rparr>]\<rparr>"

definition get_result_async ::
    "ClientGoalHandle \<Rightarrow> done_callback \<Rightarrow> PhysicsEngineNode \<Rightarrow> PhysicsEngineNode" where
  "get_result_async goal_handle cb n = set_done_callback (goal_id goal_handle) (Some cb) n"

text \<open>
  The body of \<^verbatim>\<open>__rudder_action_send_goal\<close>. The argument \<open>server_ready\<close> is what
  \<^verbatim>\<open>wait_for_server(timeout_sec=ACTION_SEND_GOAL_TIMEOUT_SEC)\<close> returns.
\<close>

definition rudder_action_send_goal_body ::
    "config \<Rightarrow> bool \<Rightarrow> PhysicsEngineNode \<Rightarrow> PhysicsEngineNode" where
  "rudder_action_send_goal_body cfg server_ready n =
     (let n1 = log DEBUG [Str ''Initiating goal request for rudder actuation action''] n;
          goal_msg = \<lparr>SimRudderActuation_Goal.desired_heading =
                        PhysicsEngineNode.desired_heading n1\<rparr>;
          is_timed_out = (\<not> server_ready)
      in if is_timed_out
         then log WARN [Str ''Rudder actuation action goal request timed out after '',
                        Num (ACTION_SEND_GOAL_TIMEOUT_SEC cfg), Str '' seconds. Aborting...''] n1
         else log DEBUG [Str ''Completed goal request for rudder actuation action'']
                (send_goal_async goal_msg Goal_response_callback n1))"

text \<open>
  The decorator \<^verbatim>\<open>require_all_subs_active\<close> is defined in a module that is not among the
  source files. The verdict of its check is a parameter: with \<open>True\<close> the decorated function
  runs; with \<open>False\<close> it does not run, and the model leaves the node as it is.
\<close>

definition require_all_subs_active ::
    "bool \<Rightarrow> (PhysicsEngineNode \<Rightarrow> PhysicsEngineNode) \<Rightarrow> PhysicsEngineNode \<Rightarrow> PhysicsEngineNode" where
  "require_all_subs_active all_subs_active func n = (if all_subs_active then func n else n)"

definition rudder_action_send_goal ::
    "config \<Rightarrow> bool \<Rightarrow> bool \<Rightarrow> PhysicsEngineNode \<Rightarrow> PhysicsEngineNode" where
  "rudder_action_send_goal cfg all_subs_active server_ready =
     require_all_subs_active all_subs_active (rudder_action_send_goal_body cfg server_ready)"

text \<open>The argument is \<^verbatim>\<open>future.result()\<close>: a goal handle, or \<^verbatim>\<open>None\<close>.\<close>

definition rudder_action_goal_response_callback ::
    "ClientGoalHandle option \<Rightarrow> PhysicsEngineNode \<Rightarrow> PhysicsEngineNode" where
  "rudder_action_goal_response_callback future_result n =
     (case future_result of
        None \<Rightarrow>
          log WARN [Str ''Attempted to send rudder actuation goal, but it was rejected''] n
      | Some goal_handle \<Rightarrow>
          if \<not> accepted goal_handle
          then log WARN [Str ''Attempted to send rudder actuation goal, but it was rejected''] n
          else get_result_async goal_handle Get_result_callback
                 (log DEBUG [Str ''Rudder actuation goal was accepted. Beginning rudder actuation''] n))"

text \<open>The argument is \<^verbatim>\<open>future.result().result.remaining_angular_distance\<close>.\<close>

definition rudder_action_get_result_callback ::
    "scalar \<Rightarrow> PhysicsEngineNode \<Rightarrow> PhysicsEngineNode" where
  "rudder_action_get_result_callback remaining_angular_distance n =
     log DEBUG [Str ''Rudder actuation action finished with a heading residual of '',
                Fixed2 remaining_angular_distance, Str '' radians and final '',
                Str ''rudder angle of '', Num (rudder_angle n), Str '' radians''] n"

text \<open>The argument is \<^verbatim>\<open>feedback_msg.feedback.rudder_angle\<close>.\<close>

definition rudder_action_feedback_callback ::
    "scalar \<Rightarrow> PhysicsEngineNode \<Rightarrow> PhysicsEngineNode" where
  "rudder_action_feedback_callback feedback_rudder_angle n =
     (let n1 = n\<lparr>rudder_angle := feedback_rudder_angle\<rparr>
      in log DEBUG [Str ''Rudder actuation action reported a rudder angle of '',
                    Num (rudder_angle n1)] n1)"

subsection \<open>The executor\<close>

text \<open>
  \<^verbatim>\<open>rclpy.spin\<close> runs one callback at a time. An event is a callback the executor runs
  with the data it hands over: a timer that fires (for the rudder timer, the verdict of the
  decorator and the answer of \<^verbatim>\<open>wait_for_server\<close>), a message on the desired-heading topic,
  and, for the request with a given goal id, the completion of its send-goal future (with no
  handle, or a handle that is accepted or not), a feedback message, and the completion of its
  result future.

  A done-callback runs once, when its future completes, so the executor runs it only
  while it is attached and detaches it. The action server sends feedback and a result for
  accepted goals only, so a feedback event is run for a request only while its result
  callback is attached. An event the executor cannot run gives \<open>None\<close>.
\<close>

datatype event =
    Publish_timer
  | Rudder_timer bool bool
  | Desired_heading_msg DesiredHeading
  | Goal_response nat "bool option"
  | Feedback nat scalar
  | Get_result nat scalar

definition attached :: "PhysicsEngineNode \<Rightarrow> nat \<Rightarrow> done_callback option" where
  "attached n i =
     (if i < length (rudder_actuation_action_client n)
      then done_callback (rudder_actuation_action_client n ! i) else None)"

fun spin_once :: "config \<Rightarrow> event \<Rightarrow> PhysicsEngineNode \<Rightarrow> PhysicsEngineNode option" where
  "spin_once cfg Publish_timer n = Some (publish cfg n)"
| "spin_once cfg (Rudder_timer all_subs_active server_ready) n =
     Some (rudder_action_send_goal cfg all_subs_active server_ready n)"
| "spin_once cfg (Desired_heading_msg msg) n = Some (desired_heading_sub_callback cfg msg n)"
| "spin_once cfg (Goal_response i h) n =
     (if attached n i = Some Goal_response_callback
      then Some (rudder_action_goal_response_callback
                   (map_option (\<lambda>a. \<lparr>goal_id = i, accepted = a\<rparr>) h)
                   (set_done_callback i None n))
      else None)"
| "spin_once cfg (Feedback i a) n =
     (if attached n i = Some Get_result_callback
      then Some (rudder_action_feedback_callback a n) else None)"
| "spin_once cfg (Get_result i r) n =
     (if attached n i = Some Get_result_callback
      then Some (rudder_action_get_result_callback r (set_done_callback i None n))
      else None)"

fun spin :: "config \<Rightarrow> event list \<Rightarrow> PhysicsEngineNode \<Rightarrow> PhysicsEngineNode option" where
  "spin cfg [] n = Some n"
| "spin cfg (e # es) n =
     (case spin_once cfg e n of None \<Rightarrow> None | Some n' \<Rightarrow> spin cfg es n')"

subsection \<open>Observations on nodes and event sequences\<close>

text \<open>The number of publish cycles in a sequence of events.\<close>

definition publish_cycles :: "event list \<Rightarrow> nat" where
  "publish_cycles es = length (filter (\<lambda>e. e = Publish_timer) es)"

text \<open>The residuals the result events of a sequence carry, in order.\<close>

fun result_of :: "event \<Rightarrow> scalar list" where
  "result_of (Get_result i r) = [r]"
| "result_of e = []"

definition results_delivered :: "event list \<Rightarrow> scalar list" where
  "results_delivered es = concat (map result_of es)"

text \<open>
  The residuals the log holds: the values printed with \<^verbatim>\<open>:.2f\<close>, which only the result
  callback prints.
\<close>

fun fixed2_of :: "fragment \<Rightarrow> scalar list" where
  "fixed2_of (Fixed2 r) = [r]"
| "fixed2_of f = []"

definition residuals_logged :: "log_line list \<Rightarrow> scalar list" where
  "residuals_logged ls = concat (map (\<lambda>l. concat (map fixed2_of (snd l))) ls)"

text \<open>Whether an event is run for the request with goal id \<open>i\<close>.\<close>

fun event_of_request :: "nat \<Rightarrow> event \<Rightarrow> bool" where
  "event_of_request i (Goal_response j h) = (j = i)"
| "event_of_request i (Feedback j a) = (j = i)"
| "event_of_request i (Get_result j r) = (j = i)"
| "event_of_request i e = False"

text \<open>
  The node without its log: its private attributes, what it has published and its requests.
\<close>

definition without_log :: "PhysicsEngineNode \<Rightarrow> PhysicsEngineNode" where
  "without_log n = n\<lparr>logger := []\<rparr>"

text \<open>The requests that still have a done-callback attached: sent, and not yet finished.\<close>

definition outstanding :: "PhysicsEngineNode \<Rightarrow> nat" where
  "outstanding n =
     length (filter (\<lambda>r. done_callback r \<noteq> None) (rudder_actuation_action_client n))"

subsection \<open>The state machine of the specification\<close>

text \<open>
  The node has no attribute that names the state of a request. The specification (section
  4.1) describes the requests by a state machine, written here in its words, to be compared
  with what the node does: \<^verbatim>\<open>Pending -> {Accepted, Rejected, TimedOut}\<close>; \<^verbatim>\<open>Accepted -> Completed\<close>
  (via result) or remains Accepted while feedback events arrive; Rejected, Completed and
  TimedOut are terminal.
\<close>

datatype request_state = Pending | Accepted | Rejected | Completed | TimedOut

datatype request_event = Accept | Reject | Timeout | Feedback_event | Result_event

fun spec_transition :: "request_state \<Rightarrow> request_event \<Rightarrow> request_state option" where
  "spec_transition Pending Accept = Some Accepted"
| "spec_transition Pending Reject = Some Rejected"
| "spec_transition Pending Timeout = Some TimedOut"
| "spec_transition Accepted Feedback_event = Some Accepted"
| "spec_transition Accepted Result_event = Some Completed"
| "spec_transition s e = None"

fun spec_run :: "request_state \<Rightarrow> request_event list \<Rightarrow> request_state option" where
  "spec_run s [] = Some s"
| "spec_run s (e # es) =
     (case spec_transition s e of None \<Rightarrow> None | Some s' \<Rightarrow> spec_run s' es)"

text \<open>
  What the node holds for a request in a given state of the specification: the goal-response
  callback while it is Pending, the result callback while it is Accepted, and no callback in
  a terminal state.
\<close>

fun shown_as :: "request_state \<Rightarrow> done_callback option" where
  "shown_as Pending = Some Goal_response_callback"
| "shown_as Accepted = Some Get_result_callback"
| "shown_as Rejected = None"
| "shown_as Completed = None"
| "shown_as TimedOut = None"

text \<open>
  The events of the executor as events of the request with goal id \<open>i\<close>: a goal response is an
  acceptance when it carries a handle that is accepted, and a rejection otherwise.
\<close>

fun request_events :: "nat \<Rightarrow> event list \<Rightarrow> request_event list" where
  "request_events i [] = []"
| "request_events i (Goal_response j h # es) =
     (if j = i then [if h = Some True then Accept else Reject] else []) @ request_events i es"
| "request_events i (Feedback j a # es) =
     (if j = i then [Feedback_event] else []) @ request_events i es"
| "request_events i (Get_result j r # es) =
     (if j = i then [Result_event] else []) @ request_events i es"
| "request_events i (e # es) = request_events i es"

subsection \<open>A configuration for the examples\<close>

definition example_config :: config where
  "example_config =
     \<lparr>pub_period_sec = 1 / 2, ACTION_SEND_GOAL_TIMEOUT_SEC = 2, GPS_topic = ''gps'',
      WIND_SENSORS_topic = ''wind_sensors'', KINEMATICS_topic = ''kinematics'',
      DESIRED_HEADING_topic = ''desired_heading''\<rparr>"

text \<open>The same with the publish period 0.7, that is, the binary64 number nearest to 0.7.\<close>

definition example_config_0_7 :: config where
  "example_config_0_7 = example_config\<lparr>pub_period_sec := double (7 / 10)\<rparr>"

definition heading_msg :: "scalar \<Rightarrow> DesiredHeading" where
  "heading_msg h = \<lparr>DesiredHeading.heading = \<lparr>HelperHeading.heading = h\<rparr>\<rparr>"

text \<open>
  A node that has received the desired heading 0.5 and has one request, with goal id 0,
  waiting for its goal response; and the scenario of section 8 of the specification, with
  the residual as a parameter.
\<close>

definition example_pending :: PhysicsEngineNode where
  "example_pending =
     rudder_action_send_goal example_config True True
       (desired_heading_sub_callback example_config (heading_msg (1 / 2)) init_node)"

definition scenario :: "scalar \<Rightarrow> event list" where
  "scenario residual =
     [Desired_heading_msg (heading_msg (1 / 2)), Rudder_timer True True,
      Goal_response 0 (Some True), Feedback 0 (1 / 10), Feedback 0 (3 / 10),
      Get_result 0 residual]"

section \<open>The data collection node\<close>

text \<open>
  The values the node keeps in \<^verbatim>\<open>__data_to_write\<close>: \<^verbatim>\<open>None\<close>, the ordered dictionary
  of a message, and the float of the key \<^verbatim>\<open>"time"\<close>. \<open>truthy\<close> is Python's truth value,
  which \<^verbatim>\<open>all(...)\<close> tests.
\<close>

datatype py_value =
    PyNone
  | PyFloat scalar
  | PyInt int
  | PyStr string
  | PyDict "(string \<times> py_value) list"

fun truthy :: "py_value \<Rightarrow> bool" where
  "truthy PyNone = False"
| "truthy (PyFloat r) = (r \<noteq> 0)"
| "truthy (PyInt i) = (i \<noteq> 0)"
| "truthy (PyStr s) = (s \<noteq> [])"
| "truthy (PyDict kvs) = (kvs \<noteq> [])"

text \<open>
  A Python dictionary keeps its keys in insertion order: \<^verbatim>\<open>d[k] = v\<close> replaces the value of
  a key that is present and adds a new key at the end.
\<close>

fun dict_set :: "'k \<Rightarrow> 'v \<Rightarrow> ('k \<times> 'v) list \<Rightarrow> ('k \<times> 'v) list" where
  "dict_set k v [] = [(k, v)]"
| "dict_set k v ((k', v') # kvs) =
     (if k = k' then (k, v) # kvs else (k', v') # dict_set k v kvs)"

text \<open>The slices \<^verbatim>\<open>xs[::2]\<close> and \<^verbatim>\<open>xs[1::2]\<close>.\<close>

fun slice_even :: "'a list \<Rightarrow> 'a list" where
  "slice_even [] = []"
| "slice_even [a] = [a]"
| "slice_even (a # b # xs) = a # slice_even xs"

fun slice_odd :: "'a list \<Rightarrow> 'a list" where
  "slice_odd [] = []"
| "slice_odd [a] = []"
| "slice_odd (a # b # xs) = b # slice_odd xs"

text \<open>
  What is written to the JSON file, in order: literal text, and the text that
  \<^verbatim>\<open>json.dumps(item_to_write, indent=4)\<close> returns, kept as the dictionary it prints.
\<close>

datatype piece =
    Text string
  | Json_dumps "(int \<times> (string \<times> py_value) list) list"

datatype dc_error = KeyError string | AttributeError string

text \<open>
  The ROS parameters the JSON path reads, and the names of the message classes of
  \<^verbatim>\<open>custom_interfaces.msg\<close> (the keys of \<^verbatim>\<open>__msg_types_dict\<close>). The rosbag writer is an
  external store and is left out.
\<close>

record dc_params =
  topics :: "string list"
  json :: bool
  write_period_sec :: scalar
  msg_types :: "string list"

record json_log =
  data_to_write :: "(string \<times> py_value) list"
  json_index_counter :: int
  json_file :: "piece list"

text \<open>
  The attributes \<^verbatim>\<open>__data_to_write\<close>, \<^verbatim>\<open>__json_index_counter\<close> and \<^verbatim>\<open>__json_file\<close> exist only
  after \<^verbatim>\<open>__init_json_file\<close> has run. \<open>callback_topic_name\<close> is the local variable
  \<^verbatim>\<open>topic_name\<close> of \<^verbatim>\<open>__init_subscriptions\<close>, which the lambda of every subscription reads
  when it is called.
\<close>

record DataCollectionNode =
  sub_topic_names :: "(string \<times> string) list"
  subscriptions :: "string list"
  callback_topic_name :: "string option"
  json_log :: "json_log option"
  dc_logger :: "log_line list"

fun init_subscriptions_loop ::
    "dc_params \<Rightarrow> (string \<times> string) list \<Rightarrow> DataCollectionNode \<Rightarrow> dc_error + DataCollectionNode" where
  "init_subscriptions_loop p [] n = Inr n"
| "init_subscriptions_loop p ((topic_name, msg_type_name) # rest) n =
     (let n1 = (if msg_type_name \<notin> set (msg_types p)
                then n\<lparr>dc_logger := dc_logger n @
                       [(ERROR, [Str ''msg type '', Str msg_type_name,
                                 Str '' does not exist. Please adjust the topics array in globals.yaml''])]\<rparr>
                else n);
          n2 = n1\<lparr>sub_topic_names := dict_set topic_name msg_type_name (sub_topic_names n1),
                  callback_topic_name := Some topic_name\<rparr>
      in if msg_type_name \<notin> set (msg_types p) then Inl (KeyError msg_type_name)
         else init_subscriptions_loop p rest (n2\<lparr>subscriptions := subscriptions n2 @ [topic_name]\<rparr>))"

definition init_subscriptions :: "dc_params \<Rightarrow> DataCollectionNode \<Rightarrow> dc_error + DataCollectionNode" where
  "init_subscriptions p n =
     (let topic_names = slice_even (topics p);
          topic_types = slice_odd (topics p)
      in init_subscriptions_loop p (zip topic_names topic_types)
           (n\<lparr>sub_topic_names := []\<rparr>))"

definition init_json_file :: "DataCollectionNode \<Rightarrow> DataCollectionNode" where
  "init_json_file n =
     n\<lparr>json_log := Some
         \<lparr>data_to_write = fold (\<lambda>topic_name d. dict_set topic_name PyNone d)
                            (map fst (sub_topic_names n)) [],
          json_index_counter = 0,
          json_file = [Text ''[\<newline>'']\<rparr>\<rparr>"

definition init_data_collection :: "dc_params \<Rightarrow> dc_error + DataCollectionNode" where
  "init_data_collection p =
     (case init_subscriptions p
             \<lparr>sub_topic_names = [], subscriptions = [], callback_topic_name = None,
              json_log = None, dc_logger = []\<rparr> of
        Inl e \<Rightarrow> Inl e
      | Inr n \<Rightarrow> Inr (if json p then init_json_file n else n))"

definition general_sub_callback ::
    "dc_params \<Rightarrow> (string \<times> py_value) list \<Rightarrow> string \<Rightarrow> DataCollectionNode
       \<Rightarrow> dc_error + DataCollectionNode" where
  "general_sub_callback p msg_as_ord_dict topic_name n =
     (if json p
      then (case json_log n of
              None \<Rightarrow> Inl (AttributeError ''_DataCollectionNode__data_to_write'')
            | Some j \<Rightarrow>
                Inr (n\<lparr>json_log := Some (j\<lparr>data_to_write :=
                          dict_set topic_name (PyDict msg_as_ord_dict) (data_to_write j)\<rparr>)\<rparr>))
      else Inr n)"

text \<open>
  The callback of a subscription, \<^verbatim>\<open>lambda msg: self.__general_sub_callback(msg, topic_name)\<close>:
  whatever topic the message came from, the topic name is the value the loop variable has
  now.
\<close>

definition subscription_callback ::
    "dc_params \<Rightarrow> (string \<times> py_value) list \<Rightarrow> DataCollectionNode \<Rightarrow> dc_error + DataCollectionNode" where
  "subscription_callback p msg_as_ord_dict n =
     (case callback_topic_name n of
        None \<Rightarrow> Inr n
      | Some topic_name \<Rightarrow> general_sub_callback p msg_as_ord_dict topic_name n)"

definition write_to_json :: "dc_params \<Rightarrow> DataCollectionNode \<Rightarrow> dc_error + DataCollectionNode" where
  "write_to_json p n =
     (case json_log n of
        None \<Rightarrow> Inl (AttributeError ''_DataCollectionNode__data_to_write'')
      | Some j \<Rightarrow>
          if list_all truthy (map snd (data_to_write j))
          then (let time_in_seconds =
                      py_float_mul (py_float_of_int (json_index_counter j)) (write_period_sec p);
                    d = dict_set ''time'' (PyFloat time_in_seconds) (data_to_write j);
                    item_to_write = [(json_index_counter j, d)];
                    json_string = [Json_dumps item_to_write];
                    json_string' = (if json_index_counter j > 0
                                    then Text '',\<newline>'' # json_string else json_string)
                in Inr (n\<lparr>json_log := Some
                          \<lparr>data_to_write = d,
                           json_index_counter = json_index_counter j + 1,
                           json_file = json_file j @ json_string'\<rparr>\<rparr>))
          else Inr n)"

text \<open>The timer fires \<open>k\<close> times in a row.\<close>

fun write_to_json_times :: "dc_params \<Rightarrow> nat \<Rightarrow> DataCollectionNode \<Rightarrow> dc_error + DataCollectionNode" where
  "write_to_json_times p 0 n = Inr n"
| "write_to_json_times p (Suc k) n =
     (case write_to_json p n of Inl e \<Rightarrow> Inl e | Inr n' \<Rightarrow> write_to_json_times p k n')"

subsection \<open>Observations and an example run\<close>

text \<open>
  Whether every subscribed topic has a recorded latest message that is truthy, which is what
  the timer callback is meant to wait for.
\<close>

definition topics_recorded :: "DataCollectionNode \<Rightarrow> bool" where
  "topics_recorded n =
     (case json_log n of
        None \<Rightarrow> False
      | Some j \<Rightarrow>
          list_all (\<lambda>topic_name. case map_of (data_to_write j) topic_name of
                                    None \<Rightarrow> False | Some v \<Rightarrow> truthy v)
            (map fst (sub_topic_names n)))"

text \<open>
  One subscribed topic, JSON logging on, a write period of half a second. The node is
  initialised, one message arrives on the topic, and the write timer fires \<open>k\<close> times.
\<close>

definition example_dc_params :: dc_params where
  "example_dc_params =
     \<lparr>topics = [''/gps'', ''GPS''], json = True, write_period_sec = 1 / 2,
      msg_types = [''GPS'', ''WindSensors'']\<rparr>"

definition example_msg :: "(string \<times> py_value) list" where
  "example_msg = [(''speed'', PyFloat 3)]"

fun and_then :: "dc_error + 'a \<Rightarrow> ('a \<Rightarrow> dc_error + 'b) \<Rightarrow> dc_error + 'b" where
  "and_then (Inl e) f = Inl e"
| "and_then (Inr a) f = f a"

definition example_dc_run :: "nat \<Rightarrow> dc_error + DataCollectionNode" where
  "example_dc_run k =
     and_then
       (and_then (init_data_collection example_dc_params)
          (subscription_callback example_dc_params example_msg))
       (write_to_json_times example_dc_params k)"

section \<open>Properties of the physics engine node\<close>

subsection \<open>Auxiliary facts\<close>

lemmas callback_defs =
  publish_def publish_gps_def publish_wind_sensors_def publish_kinematics_def
  desired_heading_sub_callback_def rudder_action_send_goal_def require_all_subs_active_def
  rudder_action_send_goal_body_def rudder_action_goal_response_callback_def
  rudder_action_get_result_callback_def rudder_action_feedback_callback_def
  send_goal_async_def get_result_async_def set_done_callback_def log_def Let_def

lemma spin_once_publish_counter:
  "spin_once cfg e n = Some n' \<Longrightarrow>
   publish_counter n' = publish_counter n + (if e = Publish_timer then 1 else 0)"
  by (cases e) (auto simp: callback_defs split: if_splits option.splits prod.splits)

lemma spin_once_gps_pub:
  "spin_once cfg e n = Some n' \<Longrightarrow>
   gps_pub n' = gps_pub n @ (if e = Publish_timer then
      [\<lparr>lat_lon = \<lparr>latitude = 0, longitude = 0\<rparr>,
        GPS.speed = \<lparr>HelperSpeed.speed = 0\<rparr>,
        GPS.heading = \<lparr>HelperHeading.heading = 0\<rparr>\<rparr>] else [])"
  by (cases e) (auto simp: callback_defs split: if_splits option.splits prod.splits)

lemma spin_once_wind_sensors_pub:
  "spin_once cfg e n = Some n' \<Longrightarrow>
   wind_sensors_pub n' = wind_sensors_pub n @ (if e = Publish_timer then
      [\<lparr>wind_sensors = [\<lparr>WindSensor.speed = \<lparr>HelperSpeed.speed = 0\<rparr>, direction = 0\<rparr>,
                        \<lparr>WindSensor.speed = \<lparr>HelperSpeed.speed = 0\<rparr>, direction = 0\<rparr>]\<rparr>] else [])"
  by (cases e) (auto simp: callback_defs split: if_splits option.splits prod.splits)

lemma round53_unfold:
  "0 < k \<Longrightarrow> round53 k v =
     (if v = 0 then 0
      else if v < 2 ^ 52 then round53 (k - 1) (2 * v) / 2
      else if 2 ^ 53 \<le> v then round53 (k - 1) (v / 2) * 2
      else of_int (round_half_even v))"
  by (cases k) simp_all

lemma round53_zero: "round53 k 0 = 0"
  by (cases k) simp_all

lemma double_zero: "double 0 = 0"
  by (simp add: double_def round53_zero)

lemma round_half_even_nonneg: "0 \<le> v \<Longrightarrow> 0 \<le> round_half_even v"
  by (auto simp: round_half_even_def Let_def)

lemma round53_nonneg: "0 \<le> v \<Longrightarrow> 0 \<le> round53 k v"
  by (induction k v rule: round53.induct) (auto simp: round_half_even_nonneg)

lemma double_nonneg: "0 \<le> v \<Longrightarrow> 0 \<le> double v"
  by (simp add: double_def round53_nonneg)

lemma py_int_nanosec:
  "py_int (py_float_mul (double (frac v)) (10 ^ 9)) = \<lfloor>double (double (frac v) * 10 ^ 9)\<rfloor>"
proof -
  have "0 \<le> double (frac v)" by (rule double_nonneg) simp
  then have "0 \<le> double (frac v) * 10 ^ 9" by simp
  then have "0 \<le> double (double (frac v) * 10 ^ 9)" by (rule double_nonneg)
  then show ?thesis by (simp add: py_int_def py_float_mul_def)
qed

lemma publish_kinematics_header:
  "map header (kinematics_pub (publish_kinematics cfg n)) =
   map header (kinematics_pub n) @
     [\<lparr>stamp = \<lparr>sec = \<lfloor>double (pub_period_sec cfg * double (of_int (publish_counter n)))\<rfloor>,
                nanosec = \<lfloor>double (double (frac (double (pub_period_sec cfg *
                             double (of_int (publish_counter n))))) * 10 ^ 9)\<rfloor>\<rparr>,
       frame_id = py_str (publish_counter n)\<rparr>]"
proof -
  let ?v = "double (pub_period_sec cfg * double (of_int (publish_counter n)))"
  have s: "py_int (of_int \<lfloor>?v\<rfloor>) = \<lfloor>?v\<rfloor>" by (simp add: py_int_def)
  have f: "?v - of_int \<lfloor>?v\<rfloor> = frac ?v" by (simp add: frac_def)
  show ?thesis
    unfolding publish_kinematics_def py_divmod1_def py_float_mul_def[of "pub_period_sec cfg"]
      py_float_of_int_def Let_def log_def
    using py_int_nanosec[of ?v] by (simp add: s f)
qed

lemma spin_once_kinematics_header:
  "spin_once cfg e n = Some n' \<Longrightarrow>
   map header (kinematics_pub n') = map header (kinematics_pub n) @ (if e = Publish_timer then
      [\<lparr>stamp = \<lparr>sec = \<lfloor>double (pub_period_sec cfg * double (of_int (publish_counter n)))\<rfloor>,
                 nanosec = \<lfloor>double (double (frac (double (pub_period_sec cfg *
                              double (of_int (publish_counter n))))) * 10 ^ 9)\<rfloor>\<rparr>,
        frame_id = py_str (publish_counter n)\<rparr>] else [])"
proof (cases "e = Publish_timer")
  case True
  let ?n3 = "publish_wind_sensors cfg (publish_gps cfg
      (log INFO [Str ''Publishing simulated sensor and kinematics data''] n))"
  have pc: "publish_counter ?n3 = publish_counter n" and kp: "kinematics_pub ?n3 = kinematics_pub n"
    by (simp_all add: publish_gps_def publish_wind_sensors_def log_def Let_def)
  assume "spin_once cfg e n = Some n'"
  with True have "kinematics_pub n' = kinematics_pub (publish_kinematics cfg ?n3)"
    by (auto simp: publish_def Let_def)
  then show ?thesis
    using True publish_kinematics_header[of cfg ?n3] by (simp add: pc kp)
next
  case False
  assume "spin_once cfg e n = Some n'"
  with False have "kinematics_pub n' = kinematics_pub n"
    by (cases e) (auto simp: callback_defs split: if_splits option.splits)
  with False show ?thesis by simp
qed

lemma publish_cycles_Cons:
  "publish_cycles (e # es) = (if e = Publish_timer then Suc (publish_cycles es) else publish_cycles es)"
  by (simp add: publish_cycles_def)

lemma publish_cycles_Nil: "publish_cycles [] = 0"
  by (simp add: publish_cycles_def)

lemma upt_0_Suc_map: "map f [0..<Suc k] = f 0 # map (\<lambda>j. f (Suc j)) [0..<k]"
  by (simp only: upt_conv_Cons[OF zero_less_Suc] list.map map_Suc_upt[symmetric] map_map o_def)

lemma spin_publish_counter:
  "spin cfg es n = Some n' \<Longrightarrow> publish_counter n' = publish_counter n + int (publish_cycles es)"
proof (induction es arbitrary: n)
  case Nil
  then show ?case by (simp add: publish_cycles_Nil)
next
  case (Cons e es)
  then obtain m where m: "spin_once cfg e n = Some m" and rest: "spin cfg es m = Some n'"
    by (auto split: option.splits)
  from Cons.IH[OF rest] spin_once_publish_counter[OF m] show ?case
    by (simp add: publish_cycles_Cons)
qed

lemma spin_gps_pub:
  "spin cfg es n = Some n' \<Longrightarrow>
   gps_pub n' = gps_pub n @ replicate (publish_cycles es)
      \<lparr>lat_lon = \<lparr>latitude = 0, longitude = 0\<rparr>,
        GPS.speed = \<lparr>HelperSpeed.speed = 0\<rparr>,
        GPS.heading = \<lparr>HelperHeading.heading = 0\<rparr>\<rparr>"
proof (induction es arbitrary: n)
  case Nil
  then show ?case by (simp add: publish_cycles_Nil)
next
  case (Cons e es)
  then obtain m where m: "spin_once cfg e n = Some m" and rest: "spin cfg es m = Some n'"
    by (auto split: option.splits)
  from Cons.IH[OF rest] spin_once_gps_pub[OF m] show ?case
    by (simp add: publish_cycles_Cons)
qed

lemma spin_wind_sensors_pub:
  "spin cfg es n = Some n' \<Longrightarrow>
   wind_sensors_pub n' = wind_sensors_pub n @ replicate (publish_cycles es)
      \<lparr>wind_sensors = [\<lparr>WindSensor.speed = \<lparr>HelperSpeed.speed = 0\<rparr>, direction = 0\<rparr>,
                        \<lparr>WindSensor.speed = \<lparr>HelperSpeed.speed = 0\<rparr>, direction = 0\<rparr>]\<rparr>"
proof (induction es arbitrary: n)
  case Nil
  then show ?case by (simp add: publish_cycles_Nil)
next
  case (Cons e es)
  then obtain m where m: "spin_once cfg e n = Some m" and rest: "spin cfg es m = Some n'"
    by (auto split: option.splits)
  from Cons.IH[OF rest] spin_once_wind_sensors_pub[OF m] show ?case
    by (simp add: publish_cycles_Cons)
qed

lemma spin_kinematics_header:
  "spin cfg es n = Some n' \<Longrightarrow>
   map header (kinematics_pub n') = map header (kinematics_pub n) @
     map (\<lambda>k. \<lparr>stamp = \<lparr>sec = \<lfloor>double (pub_period_sec cfg *
                                          double (of_int (publish_counter n + int k)))\<rfloor>,
                         nanosec = \<lfloor>double (double (frac (double (pub_period_sec cfg *
                                      double (of_int (publish_counter n + int k))))) * 10 ^ 9)\<rfloor>\<rparr>,
                frame_id = py_str (publish_counter n + int k)\<rparr>) [0..<publish_cycles es]"
proof (induction es arbitrary: n)
  case Nil
  then show ?case by (simp add: publish_cycles_Nil)
next
  case (Cons e es)
  then obtain m where m: "spin_once cfg e n = Some m" and rest: "spin cfg es m = Some n'"
    by (auto split: option.splits)
  show ?case
  proof (cases "e = Publish_timer")
    case True
    with spin_once_publish_counter[OF m] have c: "publish_counter m = publish_counter n + 1" by simp
    from True spin_once_kinematics_header[OF m] Cons.IH[OF rest] show ?thesis
      by (simp add: publish_cycles_Cons c upt_0_Suc_map add.assoc del: upt_Suc)
  next
    case False
    with spin_once_publish_counter[OF m] have c: "publish_counter m = publish_counter n" by simp
    from False spin_once_kinematics_header[OF m] Cons.IH[OF rest] show ?thesis
      by (simp add: publish_cycles_Cons c)
  qed
qed

lemma attached_Some_less:
  "attached n i = Some cb \<Longrightarrow> i < length (rudder_actuation_action_client n)"
  by (simp add: attached_def split: if_splits)

text \<open>The rudder timer: what a tick does to the requests.\<close>

lemma send_goal_body_ready:
  "rudder_action_send_goal_body cfg True n =
     n\<lparr>logger := logger n @
          [(DEBUG, [Str ''Initiating goal request for rudder actuation action'']),
           (DEBUG, [Str ''Completed goal request for rudder actuation action''])],
       rudder_actuation_action_client := rudder_actuation_action_client n @
          [\<lparr>goal = \<lparr>SimRudderActuation_Goal.desired_heading = PhysicsEngineNode.desired_heading n\<rparr>,
            done_callback = Some Goal_response_callback\<rparr>]\<rparr>"
  by (simp add: callback_defs)

lemma send_goal_body_timed_out:
  "rudder_action_send_goal_body cfg False n =
     n\<lparr>logger := logger n @
          [(DEBUG, [Str ''Initiating goal request for rudder actuation action'']),
           (WARN, [Str ''Rudder actuation action goal request timed out after '',
                   Num (ACTION_SEND_GOAL_TIMEOUT_SEC cfg), Str '' seconds. Aborting...''])]\<rparr>"
  by (simp add: callback_defs)

lemma spin_once_length_client:
  "spin_once cfg e n = Some n' \<Longrightarrow>
   length (rudder_actuation_action_client n') =
   length (rudder_actuation_action_client n) + (if e = Rudder_timer True True then 1 else 0)"
  by (cases e) (auto simp: callback_defs py_divmod1_def split: if_splits option.splits)

lemma spin_once_attached:
  assumes "spin_once cfg e n = Some n'" and "i < length (rudder_actuation_action_client n)"
  shows "attached n' i =
     (case e of
        Goal_response j h \<Rightarrow>
          if j = i then (if h = Some True then Some Get_result_callback else None)
          else attached n i
      | Get_result j r \<Rightarrow> if j = i then None else attached n i
      | _ \<Rightarrow> attached n i)"
  using assms
  by (cases e)
     (auto simp: callback_defs py_divmod1_def attached_def nth_append nth_list_update
           split: if_splits option.splits)

lemma spin_once_enabled:
  assumes "spin_once cfg e n = Some n'"
  shows "(\<forall>h. e = Goal_response i h \<longrightarrow> attached n i = Some Goal_response_callback)
       \<and> (\<forall>a. e = Feedback i a \<longrightarrow> attached n i = Some Get_result_callback)
       \<and> (\<forall>r. e = Get_result i r \<longrightarrow> attached n i = Some Get_result_callback)"
  using assms by (cases e) (auto split: if_splits)

lemma simulation_step:
  assumes step: "spin_once cfg e n = Some n'"
    and i: "i < length (rudder_actuation_action_client n)"
    and s: "attached n i = shown_as s"
  shows "\<exists>s'. spec_run s (request_events i [e]) = Some s' \<and> attached n' i = shown_as s'"
proof (cases e)
  case (Goal_response j h)
  show ?thesis
  proof (cases "j = i")
    case True
    with Goal_response spin_once_enabled[OF step, of i] s have "s = Pending"
      by (cases s) auto
    with True Goal_response spin_once_attached[OF step i] show ?thesis by auto
  next
    case False
    with Goal_response spin_once_attached[OF step i] s show ?thesis by auto
  qed
next
  case (Feedback j a)
  show ?thesis
  proof (cases "j = i")
    case True
    with Feedback spin_once_enabled[OF step, of i] s have "s = Accepted"
      by (cases s) auto
    with True Feedback spin_once_attached[OF step i] s show ?thesis by auto
  next
    case False
    with Feedback spin_once_attached[OF step i] s show ?thesis by auto
  qed
next
  case (Get_result j r)
  show ?thesis
  proof (cases "j = i")
    case True
    with Get_result spin_once_enabled[OF step, of i] s have "s = Accepted"
      by (cases s) auto
    with True Get_result spin_once_attached[OF step i] show ?thesis by auto
  next
    case False
    with Get_result spin_once_attached[OF step i] s show ?thesis by auto
  qed
qed (use spin_once_attached[OF step i] s in auto)

lemma request_events_Cons:
  "request_events i (e # es) = request_events i [e] @ request_events i es"
  by (cases e) auto

lemma spec_run_append:
  "spec_run s (xs @ ys) = (case spec_run s xs of None \<Rightarrow> None | Some s' \<Rightarrow> spec_run s' ys)"
  by (induction xs arbitrary: s) (auto split: option.splits)

lemma simulation:
  assumes "spin cfg es n = Some n'"
    and "i < length (rudder_actuation_action_client n)"
    and "attached n i = shown_as s"
  shows "\<exists>s'. spec_run s (request_events i es) = Some s' \<and> attached n' i = shown_as s'"
  using assms
proof (induction es arbitrary: n s)
  case Nil
  then show ?case by simp
next
  case (Cons e es)
  from Cons.prems(1) obtain m where m: "spin_once cfg e n = Some m"
    and rest: "spin cfg es m = Some n'"
    by (auto split: option.splits)
  from simulation_step[OF m Cons.prems(2) Cons.prems(3)] obtain s1 where
    s1: "spec_run s (request_events i [e]) = Some s1" and a1: "attached m i = shown_as s1"
    by blast
  from spin_once_length_client[OF m] Cons.prems(2)
  have i': "i < length (rudder_actuation_action_client m)" by (simp split: if_splits)
  from Cons.IH[OF rest i' a1] obtain s' where
    "spec_run s1 (request_events i es) = Some s'" "attached n' i = shown_as s'" by blast
  with s1 show ?case
    by (subst request_events_Cons) (simp add: spec_run_append)
qed

lemma spec_run_terminal:
  "s = Rejected \<or> s = Completed \<or> s = TimedOut \<Longrightarrow> spec_run s evs = Some s' \<Longrightarrow> evs = [] \<and> s' = s"
  by (cases evs) auto

lemma spin_once_rudder_timer_ready:
  "spin_once cfg (Rudder_timer True True) n =
   Some (n\<lparr>logger := logger n @
          [(DEBUG, [Str ''Initiating goal request for rudder actuation action'']),
           (DEBUG, [Str ''Completed goal request for rudder actuation action''])],
       rudder_actuation_action_client := rudder_actuation_action_client n @
          [\<lparr>goal = \<lparr>SimRudderActuation_Goal.desired_heading = PhysicsEngineNode.desired_heading n\<rparr>,
            done_callback = Some Goal_response_callback\<rparr>]\<rparr>)"
  by (simp add: rudder_action_send_goal_def require_all_subs_active_def send_goal_body_ready)

lemma new_submission:
  "\<exists>m. spin_once cfg (Rudder_timer True True) n = Some m
      \<and> attached m (length (rudder_actuation_action_client n)) = shown_as Pending
      \<and> outstanding m = outstanding n + 1"
  unfolding spin_once_rudder_timer_ready
  by (simp add: attached_def outstanding_def)

lemma finished_stays:
  assumes "spin cfg es n = Some n'" and "i < length (rudder_actuation_action_client n)"
    and "attached n i = None"
  shows "request_events i es = [] \<and> attached n' i = None"
proof -
  have "attached n i = shown_as Rejected" using assms(3) by simp
  from simulation[OF assms(1,2) this] obtain s' where
    s': "spec_run Rejected (request_events i es) = Some s'" "attached n' i = shown_as s'" by blast
  from spec_run_terminal[OF _ s'(1)] s'(2) show ?thesis by simp
qed

lemma spin_once_residuals:
  "spin_once cfg e n = Some n' \<Longrightarrow>
   residuals_logged (logger n') = residuals_logged (logger n) @ result_of e"
  by (cases e)
     (auto simp: callback_defs py_divmod1_def residuals_logged_def split: if_splits option.splits)

lemma spin_residuals:
  "spin cfg es n = Some n' \<Longrightarrow>
   residuals_logged (logger n') = residuals_logged (logger n) @ results_delivered es"
proof (induction es arbitrary: n)
  case Nil
  then show ?case by (simp add: results_delivered_def)
next
  case (Cons e es)
  then obtain m where m: "spin_once cfg e n = Some m" and rest: "spin cfg es m = Some n'"
    by (auto split: option.splits)
  from Cons.IH[OF rest] spin_once_residuals[OF m] show ?case
    by (simp add: results_delivered_def)
qed

lemma results_of_request:
  "length (results_delivered (filter (event_of_request i) es)) =
   count_list (request_events i es) Result_event"
proof (induction es)
  case Nil
  then show ?case by (simp add: results_delivered_def)
next
  case (Cons e es)
  then show ?case by (cases e) (auto simp: results_delivered_def)
qed

lemma spec_run_Completed: "spec_run Completed evs = Some s' \<Longrightarrow> s' = Completed \<and> evs = []"
  by (cases evs) auto

lemma spec_run_results:
  "spec_run s evs = Some s' \<Longrightarrow>
   count_list evs Result_event = (if s' = Completed \<and> s \<noteq> Completed then 1 else 0)"
proof (induction evs arbitrary: s)
  case Nil
  then show ?case by auto
next
  case (Cons e evs)
  then obtain s1 where s1: "spec_transition s e = Some s1" and rest: "spec_run s1 evs = Some s'"
    by (auto split: option.splits)
  from s1 consider
      (pend) "s = Pending" "e \<noteq> Result_event" "s1 \<noteq> Completed"
    | (feed) "s = Accepted" "e = Feedback_event" "s1 = Accepted"
    | (res) "s = Accepted" "e = Result_event" "s1 = Completed"
    by (cases s; cases e) simp_all
  then show ?case
  proof cases
    case pend
    with Cons.IH[OF rest] show ?thesis by simp
  next
    case feed
    with Cons.IH[OF rest] show ?thesis by simp
  next
    case res
    with rest have "s' = Completed" "evs = []" using spec_run_Completed by blast+
    with res show ?thesis by simp
  qed
qed

lemma feedback_step:
  "attached m i = Some Get_result_callback \<Longrightarrow>
   spin cfg (Feedback i a # es) m =
   spin cfg es (m\<lparr>rudder_angle := a,
        logger := logger m @
          [(DEBUG, [Str ''Rudder actuation action reported a rudder angle of '', Num a])]\<rparr>)"
  by (simp add: rudder_action_feedback_callback_def log_def)

lemma attached_feedback_node:
  "attached (m\<lparr>rudder_angle := a, logger := l\<rparr>) i = attached m i"
  by (simp add: attached_def)

lemma feedback_run:
  "attached m i = Some Get_result_callback \<Longrightarrow>
   spin cfg (map (Feedback i) angles @ rest) m =
   spin cfg rest
     (m\<lparr>rudder_angle := last (rudder_angle m # angles),
        logger := logger m @
          map (\<lambda>a. (DEBUG, [Str ''Rudder actuation action reported a rudder angle of '', Num a]))
            angles\<rparr>)"
proof (induction angles arbitrary: m)
  case Nil
  then show ?case by simp
next
  case (Cons a angles)
  let ?m1 = "m\<lparr>rudder_angle := a,
        logger := logger m @
          [(DEBUG, [Str ''Rudder actuation action reported a rudder angle of '', Num a])]\<rparr>"
  have att: "attached ?m1 i = Some Get_result_callback"
    using Cons.prems by (simp only: attached_feedback_node)
  have "spin cfg (map (Feedback i) (a # angles) @ rest) m =
        spin cfg (map (Feedback i) angles @ rest) ?m1"
    using feedback_step[OF Cons.prems, of cfg a "map (Feedback i) angles @ rest"]
    by (simp only: list.map append_Cons)
  also have "\<dots> = spin cfg rest
     (?m1\<lparr>rudder_angle := last (rudder_angle ?m1 # angles),
        logger := logger ?m1 @
          map (\<lambda>a. (DEBUG, [Str ''Rudder actuation action reported a rudder angle of '', Num a]))
            angles\<rparr>)"
    by (rule Cons.IH[OF att])
  also have "?m1\<lparr>rudder_angle := last (rudder_angle ?m1 # angles),
        logger := logger ?m1 @
          map (\<lambda>a. (DEBUG, [Str ''Rudder actuation action reported a rudder angle of '', Num a]))
            angles\<rparr> =
     m\<lparr>rudder_angle := last (rudder_angle m # a # angles),
        logger := logger m @
          map (\<lambda>a. (DEBUG, [Str ''Rudder actuation action reported a rudder angle of '', Num a]))
            (a # angles)\<rparr>"
    by simp
  finally show ?case .
qed

subsection \<open>The claims on the rudder actuation requests\<close>

text \<open>
  In the statements below, a request is Pending while its goal-response callback is
  attached, Accepted while its result callback is attached, and in a terminal state when no
  callback is attached for it (\<open>shown_as\<close>); which terminal state it is follows from the event
  that ended it (\<open>request_events\<close>, \<open>spec_run\<close>).
\<close>

text \<open>
  Claim C1, as amended. The submission entry point has no guard on outstanding requests: an
  invocation that the decorator lets through sends one new goal whenever the server answers
  in time, whatever requests are outstanding, and the number of outstanding requests grows
  by exactly one; only an invocation whose wait for the server times out creates none. So
  at most one request is outstanding after an invocation only when none was outstanding
  before it.
\<close>

theorem send_goal_dispatches_whenever_server_ready:
  "outstanding (rudder_action_send_goal cfg True server_ready n) =
     outstanding n + (if server_ready then 1 else 0)
   \<and> rudder_actuation_action_client (rudder_action_send_goal cfg True server_ready n) =
     rudder_actuation_action_client n @
       (if server_ready
        then [\<lparr>goal = \<lparr>SimRudderActuation_Goal.desired_heading = PhysicsEngineNode.desired_heading n\<rparr>,
               done_callback = Some Goal_response_callback\<rparr>]
        else [])"
  by (cases server_ready)
     (simp_all add: rudder_action_send_goal_def require_all_subs_active_def
        send_goal_body_ready send_goal_body_timed_out outstanding_def)

text \<open>
  Claim C1 as stated fails: while the request with goal id 0 is still Pending, a second
  invocation of the entry point is not a no-op, and two requests are outstanding.
\<close>

theorem second_submission_creates_second_request:
  "attached example_pending 0 = shown_as Pending
   \<and> outstanding example_pending = 1
   \<and> outstanding (rudder_action_send_goal example_config True True example_pending) = 2
   \<and> rudder_action_send_goal example_config True True example_pending \<noteq> example_pending"
proof -
  have c: "rudder_actuation_action_client example_pending =
      [\<lparr>goal = \<lparr>SimRudderActuation_Goal.desired_heading = Some (heading_msg (1 / 2))\<rparr>,
        done_callback = Some Goal_response_callback\<rparr>]"
    by (simp add: example_pending_def init_node_def callback_defs)
  have l: "length (rudder_actuation_action_client
        (rudder_action_send_goal example_config True True example_pending)) = 2"
    by (simp add: rudder_action_send_goal_def require_all_subs_active_def send_goal_body_ready c)
  have ne: "rudder_action_send_goal example_config True True example_pending \<noteq> example_pending"
  proof
    assume "rudder_action_send_goal example_config True True example_pending = example_pending"
    then have "length (rudder_actuation_action_client
        (rudder_action_send_goal example_config True True example_pending)) =
        length (rudder_actuation_action_client example_pending)"
      by (simp only:)
    with l c show False by simp
  qed
  show ?thesis
    using ne
    by (simp add: attached_def outstanding_def c rudder_action_send_goal_def
          require_all_subs_active_def send_goal_body_ready)
qed

text \<open>
  Claim C2, as amended. For every sequence submit, accept, feedback*, result run on a node,
  the rudder angle is the angle of the last feedback event (unchanged when there is none),
  the request ends with no callback attached, which is the state Completed of the
  specification, and the residual of the result event is printed in the last debug line, with
  the final rudder angle. The residual is stored nowhere: apart from the log, the final node
  does not depend on it.
\<close>

theorem accepted_request_runs_to_completion:
  "spin cfg (Rudder_timer True True
             # Goal_response (length (rudder_actuation_action_client n)) (Some True)
             # map (Feedback (length (rudder_actuation_action_client n))) angles
             @ [Get_result (length (rudder_actuation_action_client n)) residual]) n =
   Some (n\<lparr>rudder_angle := last (rudder_angle n # angles),
           logger := logger n @
             [(DEBUG, [Str ''Initiating goal request for rudder actuation action'']),
              (DEBUG, [Str ''Completed goal request for rudder actuation action'']),
              (DEBUG, [Str ''Rudder actuation goal was accepted. Beginning rudder actuation''])] @
             map (\<lambda>a. (DEBUG, [Str ''Rudder actuation action reported a rudder angle of '', Num a]))
               angles @
             [(DEBUG, [Str ''Rudder actuation action finished with a heading residual of '',
                       Fixed2 residual, Str '' radians and final '', Str ''rudder angle of '',
                       Num (last (rudder_angle n # angles)), Str '' radians''])],
           rudder_actuation_action_client := rudder_actuation_action_client n @
             [\<lparr>goal = \<lparr>SimRudderActuation_Goal.desired_heading = PhysicsEngineNode.desired_heading n\<rparr>,
               done_callback = None\<rparr>]\<rparr>)
   \<and> spec_run Pending
        (request_events (length (rudder_actuation_action_client n))
           (Goal_response (length (rudder_actuation_action_client n)) (Some True)
             # map (Feedback (length (rudder_actuation_action_client n))) angles
             @ [Get_result (length (rudder_actuation_action_client n)) residual])) = Some Completed"
proof -
  let ?i = "length (rudder_actuation_action_client n)"
  let ?n1 = "n\<lparr>logger := logger n @
          [(DEBUG, [Str ''Initiating goal request for rudder actuation action'']),
           (DEBUG, [Str ''Completed goal request for rudder actuation action''])],
       rudder_actuation_action_client := rudder_actuation_action_client n @
          [\<lparr>goal = \<lparr>SimRudderActuation_Goal.desired_heading = PhysicsEngineNode.desired_heading n\<rparr>,
            done_callback = Some Goal_response_callback\<rparr>]\<rparr>"
  let ?n2 = "n\<lparr>logger := logger n @
          [(DEBUG, [Str ''Initiating goal request for rudder actuation action'']),
           (DEBUG, [Str ''Completed goal request for rudder actuation action'']),
           (DEBUG, [Str ''Rudder actuation goal was accepted. Beginning rudder actuation''])],
       rudder_actuation_action_client := rudder_actuation_action_client n @
          [\<lparr>goal = \<lparr>SimRudderActuation_Goal.desired_heading = PhysicsEngineNode.desired_heading n\<rparr>,
            done_callback = Some Get_result_callback\<rparr>]\<rparr>"
  have s1: "spin_once cfg (Rudder_timer True True) n = Some ?n1"
    by (rule spin_once_rudder_timer_ready)
  have s2: "spin_once cfg (Goal_response ?i (Some True)) ?n1 = Some ?n2"
    by (simp add: attached_def rudder_action_goal_response_callback_def get_result_async_def
          set_done_callback_def log_def)
  have att: "attached ?n2 ?i = Some Get_result_callback"
    by (simp add: attached_def)
  have run: "spin cfg (Rudder_timer True True # Goal_response ?i (Some True)
             # map (Feedback ?i) angles @ [Get_result ?i residual]) n =
        spin cfg (map (Feedback ?i) angles @ [Get_result ?i residual]) ?n2"
    using s1 s2 by (simp del: spin_once.simps)
  have spec: "spec_run Accepted (request_events ?i (map (Feedback ?i) angles @ [Get_result ?i residual]))
      = Some Completed"
    by (induction angles) auto
  let ?n3 = "?n2\<lparr>rudder_angle := last (rudder_angle ?n2 # angles),
        logger := logger ?n2 @
          map (\<lambda>a. (DEBUG, [Str ''Rudder actuation action reported a rudder angle of '', Num a]))
            angles\<rparr>"
  have s3: "spin cfg (map (Feedback ?i) angles @ [Get_result ?i residual]) ?n2 =
        spin cfg [Get_result ?i residual] ?n3"
    by (rule feedback_run[OF att])
  have att3: "attached ?n3 ?i = Some Get_result_callback"
    by (simp add: attached_def del: last.simps)
  have s4: "spin cfg [Get_result ?i residual] ?n3 =
      Some (rudder_action_get_result_callback residual (set_done_callback ?i None ?n3))"
    using att3 by (simp del: last.simps)
  have fin: "rudder_action_get_result_callback residual (set_done_callback ?i None ?n3) =
     n\<lparr>rudder_angle := last (rudder_angle n # angles),
           logger := logger n @
             [(DEBUG, [Str ''Initiating goal request for rudder actuation action'']),
              (DEBUG, [Str ''Completed goal request for rudder actuation action'']),
              (DEBUG, [Str ''Rudder actuation goal was accepted. Beginning rudder actuation''])] @
             map (\<lambda>a. (DEBUG, [Str ''Rudder actuation action reported a rudder angle of '', Num a]))
               angles @
             [(DEBUG, [Str ''Rudder actuation action finished with a heading residual of '',
                       Fixed2 residual, Str '' radians and final '', Str ''rudder angle of '',
                       Num (last (rudder_angle n # angles)), Str '' radians''])],
           rudder_actuation_action_client := rudder_actuation_action_client n @
             [\<lparr>goal = \<lparr>SimRudderActuation_Goal.desired_heading = PhysicsEngineNode.desired_heading n\<rparr>,
               done_callback = None\<rparr>]\<rparr>"
    by (simp add: rudder_action_get_result_callback_def set_done_callback_def log_def
          del: last.simps)
  have spec': "spec_run Pending
        (request_events ?i (Goal_response ?i (Some True)
             # map (Feedback ?i) angles @ [Get_result ?i residual])) = Some Completed"
    using spec by simp
  note run
  also note s3
  also note s4
  also note fin
  finally have main: "spin cfg (Rudder_timer True True # Goal_response ?i (Some True)
             # map (Feedback ?i) angles @ [Get_result ?i residual]) n =
     Some (n\<lparr>rudder_angle := last (rudder_angle n # angles),
           logger := logger n @
             [(DEBUG, [Str ''Initiating goal request for rudder actuation action'']),
              (DEBUG, [Str ''Completed goal request for rudder actuation action'']),
              (DEBUG, [Str ''Rudder actuation goal was accepted. Beginning rudder actuation''])] @
             map (\<lambda>a. (DEBUG, [Str ''Rudder actuation action reported a rudder angle of '', Num a]))
               angles @
             [(DEBUG, [Str ''Rudder actuation action finished with a heading residual of '',
                       Fixed2 residual, Str '' radians and final '', Str ''rudder angle of '',
                       Num (last (rudder_angle n # angles)), Str '' radians''])],
           rudder_actuation_action_client := rudder_actuation_action_client n @
             [\<lparr>goal = \<lparr>SimRudderActuation_Goal.desired_heading = PhysicsEngineNode.desired_heading n\<rparr>,
               done_callback = None\<rparr>]\<rparr>)" .
  from main spec' show ?thesis by (rule conjI)
qed

text \<open>
  Claim C2 as stated fails: the node stores no result. After the scenario of the
  specification, with residual 0.02, the node without its log is the record below, which
  holds the rudder angle 0.3 and the desired heading 0.5 and no residual; the same scenario
  with residual 0.5 ends in the same node.
\<close>

theorem residual_is_not_stored:
  "map_option without_log (spin example_config (scenario (2 / 100)) init_node) =
     Some \<lparr>publish_counter = 0, rudder_angle = 3 / 10, sail_trim_tab_angle = 0,
           desired_heading = Some (heading_msg (1 / 2)), logger = [], gps_pub = [],
           wind_sensors_pub = [], kinematics_pub = [],
           rudder_actuation_action_client =
             [\<lparr>goal = \<lparr>SimRudderActuation_Goal.desired_heading = Some (heading_msg (1 / 2))\<rparr>,
               done_callback = None\<rparr>]\<rparr>
   \<and> map_option without_log (spin example_config (scenario (1 / 2)) init_node) =
     map_option without_log (spin example_config (scenario (2 / 100)) init_node)"
  by (simp add: scenario_def init_node_def attached_def without_log_def callback_defs)

text \<open>
  Claim C3. When the server does not answer within the timeout, the submission does nothing
  but log: the debug line and the warning are added, no goal is sent and no callback is
  attached (the state TimedOut of the specification: no request stands for the submission),
  the attributes of the node are unchanged, the call returns, and the next tick is run as
  usual.
\<close>

theorem timed_out_submission_sends_no_goal:
  "spin_once cfg (Rudder_timer True False) n =
     Some (n\<lparr>logger := logger n @
          [(DEBUG, [Str ''Initiating goal request for rudder actuation action'']),
           (WARN, [Str ''Rudder actuation action goal request timed out after '',
                   Num (ACTION_SEND_GOAL_TIMEOUT_SEC cfg), Str '' seconds. Aborting...''])]\<rparr>)
   \<and> rudder_actuation_action_client (rudder_action_send_goal cfg True False n) =
       rudder_actuation_action_client n
   \<and> outstanding (rudder_action_send_goal cfg True False n) = outstanding n
   \<and> attached (rudder_action_send_goal cfg True False n) (length (rudder_actuation_action_client n))
       = shown_as TimedOut
   \<and> spec_transition Pending Timeout = Some TimedOut
   \<and> (\<exists>m. spin_once cfg (Rudder_timer True True) (rudder_action_send_goal cfg True False n) = Some m)"
  by (simp add: rudder_action_send_goal_def require_all_subs_active_def send_goal_body_timed_out
        send_goal_body_ready outstanding_def attached_def)

text \<open>
  Claim C4. When the goal response of a pending request carries no handle, or a handle that
  is not accepted, the callback logs the warning and returns: the request is left with no
  callback attached (Rejected), no result is requested, the other requests are untouched,
  no later event is run for the request, and a new submission is taken on the next tick.
\<close>

theorem rejected_goal_ends_the_request:
  "attached n i = Some Goal_response_callback \<Longrightarrow> h \<noteq> Some True \<Longrightarrow>
   (\<exists>n'. spin_once cfg (Goal_response i h) n = Some n'
      \<and> n' = (set_done_callback i None n)
               \<lparr>logger := logger n @
                  [(WARN, [Str ''Attempted to send rudder actuation goal, but it was rejected''])]\<rparr>
      \<and> spec_run Pending (request_events i [Goal_response i h]) = Some Rejected
      \<and> attached n' i = shown_as Rejected
      \<and> (\<forall>j. j \<noteq> i \<longrightarrow> attached n' j = attached n j)
      \<and> (\<forall>es n''. spin cfg es n' = Some n'' \<longrightarrow> request_events i es = [] \<and> attached n'' i = None)
      \<and> (\<exists>m. spin_once cfg (Rudder_timer True True) n' = Some m \<and> outstanding m = outstanding n' + 1))"
proof -
  assume a: "attached n i = Some Goal_response_callback" and h: "h \<noteq> Some True"
  define n' where "n' = (set_done_callback i None n)
               \<lparr>logger := logger n @
                  [(WARN, [Str ''Attempted to send rudder actuation goal, but it was rejected''])]\<rparr>"
  from h have hh: "h = None \<or> h = Some False" by (cases h) auto
  have step: "spin_once cfg (Goal_response i h) n = Some n'"
    using a hh by (auto simp: n'_def rudder_action_goal_response_callback_def log_def set_done_callback_def)
  have i: "i < length (rudder_actuation_action_client n)" by (rule attached_Some_less[OF a])
  have i': "i < length (rudder_actuation_action_client n')"
    using i by (simp add: n'_def set_done_callback_def)
  have att: "attached n' j = (if j = i then None else attached n j)" for j
    using spin_once_attached[OF step, of j] i h
    by (auto simp: attached_def n'_def set_done_callback_def nth_list_update)
  have later: "request_events i es = [] \<and> attached n'' i = None" if "spin cfg es n' = Some n''" for es n''
    using finished_stays[OF that i'] att by simp
  show ?thesis
    using step hh att later new_submission[of cfg n'] by (auto simp: n'_def[symmetric])
qed

text \<open>
  Claim C5. Along every run of the executor, the events run for a request are a path of the
  state machine of the specification, and the callback attached for the request is the one
  of the state reached; from a terminal state no event of the request is run. In every
  node, a new submission can begin, and its request starts as Pending.
\<close>

theorem request_lifecycle_follows_state_machine:
  "spin cfg es n = Some n' \<Longrightarrow> i < length (rudder_actuation_action_client n) \<Longrightarrow>
   attached n i = shown_as s \<Longrightarrow>
     (\<exists>s'. spec_run s (request_events i es) = Some s' \<and> attached n' i = shown_as s'
          \<and> (s = Rejected \<or> s = Completed \<or> s = TimedOut \<longrightarrow> s' = s \<and> request_events i es = []))
   \<and> (\<exists>m. spin_once cfg (Rudder_timer True True) n' = Some m
          \<and> attached m (length (rudder_actuation_action_client n')) = shown_as Pending)"
proof -
  assume a: "spin cfg es n = Some n'" "i < length (rudder_actuation_action_client n)"
    "attached n i = shown_as s"
  from simulation[OF a] obtain s' where
    s': "spec_run s (request_events i es) = Some s'" "attached n' i = shown_as s'" by blast
  have "s = Rejected \<or> s = Completed \<or> s = TimedOut \<longrightarrow> s' = s \<and> request_events i es = []"
    using spec_run_terminal[OF _ s'(1)] by blast
  with s' new_submission[of cfg n'] show ?thesis by blast
qed

text \<open>
  Claim C6. A feedback event, which the executor runs only for an accepted request, sets
  the rudder angle to the angle it carries and adds one debug line; the desired heading,
  the publish counter, the sail trim tab angle and the requests with their callbacks are
  unchanged, and the request stays Accepted.
\<close>

theorem feedback_updates_only_rudder_angle:
  "spin_once cfg (Feedback i a) n = Some n' \<Longrightarrow>
     n' = n\<lparr>rudder_angle := a,
            logger := logger n @
              [(DEBUG, [Str ''Rudder actuation action reported a rudder angle of '', Num a])]\<rparr>
   \<and> rudder_angle n' = a
   \<and> PhysicsEngineNode.desired_heading n' = PhysicsEngineNode.desired_heading n
   \<and> publish_counter n' = publish_counter n
   \<and> sail_trim_tab_angle n' = sail_trim_tab_angle n
   \<and> rudder_actuation_action_client n' = rudder_actuation_action_client n
   \<and> attached n i = shown_as Accepted \<and> attached n' i = shown_as Accepted"
  by (auto simp: rudder_action_feedback_callback_def log_def attached_def split: if_splits)

text \<open>
  Claim C7. For a request that is Pending, after any run of the executor: a residual has
  been delivered for the request exactly when its state is Completed, and at most one; the
  residuals in the log are those of the result events of the run, and nothing else.
\<close>

theorem result_only_when_completed:
  "spin cfg es n = Some n' \<Longrightarrow> i < length (rudder_actuation_action_client n) \<Longrightarrow>
   attached n i = shown_as Pending \<Longrightarrow>
   (\<exists>s'. spec_run Pending (request_events i es) = Some s' \<and> attached n' i = shown_as s'
        \<and> ((results_delivered (filter (event_of_request i) es) \<noteq> []) = (s' = Completed))
        \<and> length (results_delivered (filter (event_of_request i) es)) \<le> 1)
   \<and> residuals_logged (logger n') = residuals_logged (logger n) @ results_delivered es"
proof -
  assume a: "spin cfg es n = Some n'" "i < length (rudder_actuation_action_client n)"
    "attached n i = shown_as Pending"
  from simulation[OF a] obtain s' where
    s': "spec_run Pending (request_events i es) = Some s'" "attached n' i = shown_as s'" by blast
  have len: "length (results_delivered (filter (event_of_request i) es)) =
      (if s' = Completed then 1 else 0)"
    using spec_run_results[OF s'(1)] by (simp add: results_of_request)
  then have "(results_delivered (filter (event_of_request i) es) \<noteq> []) = (s' = Completed)"
    by (auto split: if_splits)
  with len s' spin_residuals[OF a(1)] show ?thesis by auto
qed

subsection \<open>The claims on publishing\<close>

lemma nat_of_digits_snoc: "nat_of_digits (s @ [c]) = 10 * nat_of_digits s + digit_value c"
  by (simp add: nat_of_digits_def)

lemma digit_value_digit_char: "d < 10 \<Longrightarrow> digit_value (digit_char d) = d"
proof -
  assume "d < 10"
  then have "d \<in> {0, 1, 2, 3, 4, 5, 6, 7, 8, 9}" by auto
  then show ?thesis
    by (auto simp: digit_value_def digit_char_def)
qed

lemma nat_of_digits_str_nat: "nat_of_digits (str_nat n) = n"
proof (induction n rule: str_nat.induct)
  case (1 n)
  show ?case
  proof (cases "n < 10")
    case True
    then show ?thesis
      using digit_value_digit_char[of n] nat_of_digits_snoc[of "[]" "digit_char n"]
      by (simp add: nat_of_digits_def)
  next
    case False
    then have "str_nat n = str_nat (n div 10) @ [digit_char (n mod 10)]"
      by (subst str_nat.simps) simp
    then show ?thesis
      using 1[OF False] digit_value_digit_char[of "n mod 10"]
      by (simp add: nat_of_digits_snoc del: str_nat.simps)
  qed
qed

text \<open>
  Claim C8. In every publish cycle the GPS message has latitude, longitude, speed and heading
  0.0, and the wind-sensors message holds two readings of speed 0.0 and direction 0: along a
  run, the messages published are as many copies of these as there are publish cycles.
\<close>

theorem published_gps_and_wind_are_zero:
  "spin cfg es n = Some n' \<Longrightarrow>
     gps_pub n' = gps_pub n @ replicate (publish_cycles es)
        \<lparr>lat_lon = \<lparr>latitude = 0, longitude = 0\<rparr>,
          GPS.speed = \<lparr>HelperSpeed.speed = 0\<rparr>,
          GPS.heading = \<lparr>HelperHeading.heading = 0\<rparr>\<rparr>
   \<and> wind_sensors_pub n' = wind_sensors_pub n @ replicate (publish_cycles es)
        \<lparr>wind_sensors = [\<lparr>WindSensor.speed = \<lparr>HelperSpeed.speed = 0\<rparr>, direction = 0\<rparr>,
                          \<lparr>WindSensor.speed = \<lparr>HelperSpeed.speed = 0\<rparr>, direction = 0\<rparr>]\<rparr>
   \<and> gps_pub (publish cfg n) = gps_pub n @
        [\<lparr>lat_lon = \<lparr>latitude = 0, longitude = 0\<rparr>,
          GPS.speed = \<lparr>HelperSpeed.speed = 0\<rparr>,
          GPS.heading = \<lparr>HelperHeading.heading = 0\<rparr>\<rparr>]
   \<and> wind_sensors_pub (publish cfg n) = wind_sensors_pub n @
        [\<lparr>wind_sensors = [\<lparr>WindSensor.speed = \<lparr>HelperSpeed.speed = 0\<rparr>, direction = 0\<rparr>,
                          \<lparr>WindSensor.speed = \<lparr>HelperSpeed.speed = 0\<rparr>, direction = 0\<rparr>]\<rparr>]"
proof -
  assume a: "spin cfg es n = Some n'"
  have p: "spin_once cfg Publish_timer n = Some (publish cfg n)" by simp
  from spin_gps_pub[OF a] spin_wind_sensors_pub[OF a]
    spin_once_gps_pub[OF p] spin_once_wind_sensors_pub[OF p]
  show ?thesis by simp
qed

text \<open>
  Claim C9, as amended. Started from the initial node, the kinematics message of publish
  cycle \<open>k\<close> (from 0) has the stamp that double arithmetic gives: with \<open>x\<close> the product
  \<open>pub_period * float(k)\<close> rounded to the nearest double, \<open>sec = floor x\<close> and \<open>nanosec\<close> is the
  floor of the product \<open>frac x * 1e9\<close> rounded to the nearest double; so the stamp can differ
  by one unit from the exact \<open>floor (k * pub_period)\<close> and \<open>int (frac (k * pub_period) * 1e9)\<close>.
  The frame id is \<open>str(k)\<close>, the decimal digits of \<open>k\<close>; the publish counter is the number of
  publish cycles so far: a publish cycle adds 1 to it and no other event changes it.
\<close>

theorem kinematics_header_and_counter:
  "spin cfg es init_node = Some n \<Longrightarrow>
     publish_counter n = int (publish_cycles es)
   \<and> map header (kinematics_pub n) =
       map (\<lambda>k. \<lparr>stamp = \<lparr>sec = \<lfloor>double (pub_period_sec cfg * double (real k))\<rfloor>,
                           nanosec = \<lfloor>double (double (frac (double (pub_period_sec cfg *
                                        double (real k)))) * 10 ^ 9)\<rfloor>\<rparr>,
                  frame_id = py_str (int k)\<rparr>) [0..<publish_cycles es]
   \<and> (\<forall>k < publish_cycles es.
         nat_of_digits (frame_id (header (kinematics_pub n ! k))) = k)
   \<and> (\<forall>e m m'. spin_once cfg e m = Some m' \<longrightarrow>
         publish_counter m' = publish_counter m + (if e = Publish_timer then 1 else 0))"
proof -
  assume a: "spin cfg es init_node = Some n"
  let ?hdr = "\<lambda>k. \<lparr>stamp = \<lparr>sec = \<lfloor>double (pub_period_sec cfg * double (real k))\<rfloor>,
                           nanosec = \<lfloor>double (double (frac (double (pub_period_sec cfg *
                                        double (real k)))) * 10 ^ 9)\<rfloor>\<rparr>,
                  frame_id = py_str (int k)\<rparr>"
  have c0: "publish_counter init_node = 0" and k0: "kinematics_pub init_node = []"
    by (simp_all add: init_node_def)
  have c: "publish_counter n = int (publish_cycles es)"
    using spin_publish_counter[OF a] c0 by simp
  have h: "map header (kinematics_pub n) = map ?hdr [0..<publish_cycles es]"
    using spin_kinematics_header[OF a] unfolding c0 k0
    by simp
  have len: "length (kinematics_pub n) = publish_cycles es"
    using arg_cong[OF h, of length] by simp
  have d: "nat_of_digits (frame_id (header (kinematics_pub n ! k))) = k"
    if k: "k < publish_cycles es" for k
  proof -
    have "header (kinematics_pub n ! k) = map header (kinematics_pub n) ! k"
      using k len by simp
    also have "\<dots> = map ?hdr [0..<publish_cycles es] ! k" by (simp only: h)
    also have "\<dots> = ?hdr k" using k by simp
    finally have "frame_id (header (kinematics_pub n ! k)) = py_str (int k)" by simp
    then show ?thesis by (simp add: py_str_def nat_of_digits_str_nat del: str_nat.simps)
  qed
  have f: "\<forall>e m m'. spin_once cfg e m = Some m' \<longrightarrow>
         publish_counter m' = publish_counter m + (if e = Publish_timer then 1 else 0)"
    by (intro allI impI) (rule spin_once_publish_counter)
  from d have d': "\<forall>k < publish_cycles es.
         nat_of_digits (frame_id (header (kinematics_pub n ! k))) = k" by simp
  show ?thesis by (intro conjI c h d' f)
qed

text \<open>The stamps of the first three publish cycles at the publish period 0.7.\<close>

lemmas double_eval = double_def round53_unfold round_half_even_def Let_def frac_def

lemma period_0_7: "pub_period_sec example_config_0_7 = 3152519739159347 / 4503599627370496"
  by (simp add: example_config_0_7_def example_config_def double_eval del: round53.simps)

lemma stamp_0_7_cycle0:
  "\<lfloor>double (3152519739159347 / 4503599627370496 * double (real 0))\<rfloor> = 0
   \<and> \<lfloor>double (double (frac (double (3152519739159347 / 4503599627370496 * double (real 0)))) * 10 ^ 9)\<rfloor> = 0"
  by (simp add: double_zero)

lemma stamp_0_7_cycle1:
  "\<lfloor>double (3152519739159347 / 4503599627370496 * double (real 1))\<rfloor> = 0
   \<and> \<lfloor>double (double (frac (double (3152519739159347 / 4503599627370496 * double (real 1)))) * 10 ^ 9)\<rfloor> = 700000000"
  by (simp add: double_eval del: round53.simps)

lemma stamp_0_7_cycle2:
  "\<lfloor>double (3152519739159347 / 4503599627370496 * double (real 2))\<rfloor> = 1
   \<and> \<lfloor>double (double (frac (double (3152519739159347 / 4503599627370496 * double (real 2)))) * 10 ^ 9)\<rfloor> = 399999999"
  by (simp add: double_eval del: round53.simps)

lemma headers_0_7:
  "spin example_config_0_7 [Publish_timer, Publish_timer, Publish_timer] init_node = Some n \<Longrightarrow>
   map header (kinematics_pub n) =
          [\<lparr>stamp = \<lparr>sec = 0, nanosec = 0\<rparr>, frame_id = ''0''\<rparr>,
           \<lparr>stamp = \<lparr>sec = 0, nanosec = 700000000\<rparr>, frame_id = ''1''\<rparr>,
           \<lparr>stamp = \<lparr>sec = 1, nanosec = 399999999\<rparr>, frame_id = ''2''\<rparr>]"
proof -
  let ?es = "[Publish_timer, Publish_timer, Publish_timer]"
  assume r: "spin example_config_0_7 ?es init_node = Some n"
  have c: "publish_cycles ?es = 3" by (simp add: publish_cycles_def)
  have u: "[0..<3] = [0, 1, 2]" by (simp add: upt_rec)
  have c0: "publish_counter init_node = 0" and k0: "kinematics_pub init_node = []"
    by (simp_all add: init_node_def)
  have s: "py_str (int 0) = ''0''" "py_str (int 1) = ''1''" "py_str (int 2) = ''2''"
    by (simp_all add: py_str_def digit_char_def)
  from spin_kinematics_header[OF r]
  have "map header (kinematics_pub n) =
       map (\<lambda>k. \<lparr>stamp = \<lparr>sec = \<lfloor>double (3152519739159347 / 4503599627370496 * double (real k))\<rfloor>,
                           nanosec = \<lfloor>double (double (frac (double (3152519739159347 / 4503599627370496 *
                                        double (real k)))) * 10 ^ 9)\<rfloor>\<rparr>,
                  frame_id = py_str (int k)\<rparr>) [0, 1, 2]"
    unfolding c u period_0_7 c0 k0 by simp
  then show ?thesis
    using stamp_0_7_cycle0 stamp_0_7_cycle1 stamp_0_7_cycle2 s
    by (simp only: list.map HOL.simp_thms)
qed

text \<open>
  Claim C9 as stated fails. With the publish period 0.7, which as a double is
  3152519739159347 / 2^52, the messages of cycles 0, 1 and 2 have \<open>nanosec\<close> 0, 700000000 and
  399999999. For cycle 1 the exact \<open>int (frac (1 * pub_period) * 1e9)\<close> is 699999999: the
  product with \<open>1e9\<close> is rounded up to 700000000. For cycle 2 the exact value for the period
  0.7 is 400000000.
\<close>

theorem kinematics_stamp_is_not_exact:
  "(\<exists>n. spin example_config_0_7 [Publish_timer, Publish_timer, Publish_timer] init_node = Some n
       \<and> map (\<lambda>m. nanosec (stamp (header m))) (kinematics_pub n) = [0, 700000000, 399999999])
   \<and> \<lfloor>frac (real 1 * pub_period_sec example_config_0_7) * 10 ^ 9\<rfloor> = 699999999
   \<and> \<lfloor>frac (real 2 * (7 / 10)) * 10 ^ 9\<rfloor> = 400000000"
proof -
  let ?es = "[Publish_timer, Publish_timer, Publish_timer]"
  have "\<exists>n. spin example_config_0_7 ?es init_node = Some n" by simp
  then obtain n where r: "spin example_config_0_7 ?es init_node = Some n" by blast
  have "map (\<lambda>m. nanosec (stamp (header m))) (kinematics_pub n) =
        map (\<lambda>h. nanosec (stamp h)) (map header (kinematics_pub n))"
    by (simp add: comp_def)
  also have "\<dots> = [0, 700000000, 399999999]"
    unfolding headers_0_7[OF r] by simp
  finally have a: "spin example_config_0_7 ?es init_node = Some n
       \<and> map (\<lambda>m. nanosec (stamp (header m))) (kinematics_pub n) = [0, 700000000, 399999999]"
    using r by (simp only: simp_thms)
  have b: "\<lfloor>frac (real 1 * pub_period_sec example_config_0_7) * 10 ^ 9\<rfloor> = 699999999"
    unfolding period_0_7 by (simp add: frac_def)
  have c: "\<lfloor>frac (real 2 * (7 / 10)) * 10 ^ 9\<rfloor> = 400000000"
    by (simp add: frac_def)
  from a have "\<exists>n. spin example_config_0_7 ?es init_node = Some n
       \<and> map (\<lambda>m. nanosec (stamp (header m))) (kinematics_pub n) = [0, 700000000, 399999999]"
    by (rule exI)
  with b c show ?thesis by (intro conjI)
qed

section \<open>Properties of the data collection node\<close>

text \<open>
  The timer callback tests \<^verbatim>\<open>all(self.__data_to_write.values())\<close> and then stores the key
  \<^verbatim>\<open>"time"\<close> in the same dictionary. The first entry has the time \<open>0 * period = 0.0\<close>, which
  is falsy: from then on the test fails, and no firing writes again.
\<close>

lemma write_to_json_stuck:
  "json_log n = Some j \<Longrightarrow> (''time'', PyFloat 0) \<in> set (data_to_write j) \<Longrightarrow>
   write_to_json p n = Inr n"
  by (auto simp: write_to_json_def list_all_iff)

lemma write_to_json_times_stuck:
  "json_log n = Some j \<Longrightarrow> (''time'', PyFloat 0) \<in> set (data_to_write j) \<Longrightarrow>
   write_to_json_times p k n = Inr n"
  by (induction k) (simp_all add: write_to_json_stuck)

lemmas dc_defs =
  py_float_mul_def py_float_of_int_def double_zero
  example_dc_run_def example_dc_params_def example_msg_def init_data_collection_def
  init_subscriptions_def init_json_file_def subscription_callback_def general_sub_callback_def
  write_to_json_def Let_def

text \<open>
  Claim C10 at a failing input. One topic is subscribed and has a recorded, non-empty
  message. The first firing of the timer writes the entry with key 0 and time 0.0, without a
  comma. At the second firing every subscribed topic still has its truthy message, yet
  nothing is written and the index stays 1; the same holds for every later firing.
\<close>

theorem second_json_write_is_skipped:
  "example_dc_run 1 =
     Inr \<lparr>sub_topic_names = [(''/gps'', ''GPS'')], subscriptions = [''/gps''],
          callback_topic_name = Some ''/gps'',
          json_log = Some
            \<lparr>data_to_write = [(''/gps'', PyDict [(''speed'', PyFloat 3)]), (''time'', PyFloat 0)],
             json_index_counter = 1,
             json_file = [Text ''[\<newline>'',
                          Json_dumps [(0, [(''/gps'', PyDict [(''speed'', PyFloat 3)]),
                                           (''time'', PyFloat 0)])]]\<rparr>,
          dc_logger = []\<rparr>
   \<and> (case example_dc_run 1 of
        Inl e \<Rightarrow> False
      | Inr n \<Rightarrow> topics_recorded n \<and> write_to_json example_dc_params n = Inr n)
   \<and> example_dc_run (Suc k) = example_dc_run 1"
proof -
  let ?n1 = "\<lparr>sub_topic_names = [(''/gps'', ''GPS'')], subscriptions = [''/gps''],
          callback_topic_name = Some ''/gps'',
          json_log = Some
            \<lparr>data_to_write = [(''/gps'', PyDict [(''speed'', PyFloat 3)]), (''time'', PyFloat 0)],
             json_index_counter = 1,
             json_file = [Text ''[\<newline>'',
                          Json_dumps [(0, [(''/gps'', PyDict [(''speed'', PyFloat 3)]),
                                           (''time'', PyFloat 0)])]]\<rparr>,
          dc_logger = []\<rparr>"
  let ?n0 = "\<lparr>sub_topic_names = [(''/gps'', ''GPS'')], subscriptions = [''/gps''],
          callback_topic_name = Some ''/gps'',
          json_log = Some
            \<lparr>data_to_write = [(''/gps'', PyDict [(''speed'', PyFloat 3)])],
             json_index_counter = 0,
             json_file = [Text ''[\<newline>'']\<rparr>,
          dc_logger = []\<rparr>"
  have r0: "and_then (init_data_collection example_dc_params)
          (subscription_callback example_dc_params example_msg) = Inr ?n0"
    by (simp add: dc_defs)
  have w0: "write_to_json example_dc_params ?n0 = Inr ?n1"
    by (simp add: dc_defs)
  have stuck: "write_to_json_times example_dc_params k ?n1 = Inr ?n1" for k
    by (rule write_to_json_times_stuck[where j = "\<lparr>data_to_write = [(''/gps'', PyDict [(''speed'', PyFloat 3)]), (''time'', PyFloat 0)],
             json_index_counter = 1,
             json_file = [Text ''[\<newline>'',
                          Json_dumps [(0, [(''/gps'', PyDict [(''speed'', PyFloat 3)]),
                                           (''time'', PyFloat 0)])]]\<rparr>"]) simp_all
  have run: "example_dc_run (Suc k) = Inr ?n1" for k
    unfolding example_dc_run_def r0 using w0 stuck[of k] by simp
  have r1: "example_dc_run 1 = Inr ?n1" using run[of 0] by simp
  have t: "topics_recorded ?n1" by (simp add: topics_recorded_def)
  have s: "write_to_json example_dc_params ?n1 = Inr ?n1"
    by (rule write_to_json_stuck[where j = "\<lparr>data_to_write = [(''/gps'', PyDict [(''speed'', PyFloat 3)]), (''time'', PyFloat 0)],
             json_index_counter = 1,
             json_file = [Text ''[\<newline>'',
                          Json_dumps [(0, [(''/gps'', PyDict [(''speed'', PyFloat 3)]),
                                           (''time'', PyFloat 0)])]]\<rparr>"]) simp_all
  show ?thesis
    unfolding r1 run using t s by simp
qed

section \<open>The claims at concrete inputs\<close>

text \<open>
  Each theorem above that has a hypothesis is used here at a concrete node and run, with
  its hypotheses discharged.
\<close>

lemma example_pending_client:
  "rudder_actuation_action_client example_pending =
      [\<lparr>goal = \<lparr>SimRudderActuation_Goal.desired_heading = Some (heading_msg (1 / 2))\<rparr>,
        done_callback = Some Goal_response_callback\<rparr>]"
  by (simp add: example_pending_def init_node_def callback_defs)

lemma example_pending_attached: "attached example_pending 0 = Some Goal_response_callback"
  by (simp add: attached_def example_pending_client)

lemma example_run:
  "\<exists>n'. spin example_config
          [Goal_response 0 (Some True), Feedback 0 (1 / 10), Feedback 0 (3 / 10),
           Get_result 0 (2 / 100)] example_pending = Some n'"
  by (simp add: attached_def example_pending_client callback_defs)

theorem send_goal_dispatches_whenever_server_ready_witness:
  "outstanding (rudder_action_send_goal example_config True True example_pending) = 2
   \<and> outstanding (rudder_action_send_goal example_config True False example_pending) = 1"
  using send_goal_dispatches_whenever_server_ready[of example_config True example_pending]
    send_goal_dispatches_whenever_server_ready[of example_config False example_pending]
  by (simp add: outstanding_def example_pending_client)

theorem accepted_request_runs_to_completion_witness:
  "map_option rudder_angle
     (spin example_config
        [Rudder_timer True True, Goal_response 0 (Some True), Feedback 0 (1 / 10),
         Feedback 0 (3 / 10), Get_result 0 (2 / 100)] init_node) = Some (3 / 10)"
proof -
  have l: "length (rudder_actuation_action_client init_node) = 0" by (simp add: init_node_def)
  show ?thesis
    using accepted_request_runs_to_completion[of example_config init_node "[1 / 10, 3 / 10]" "2 / 100"]
    unfolding l by (simp del: spin.simps)
qed

theorem timed_out_submission_sends_no_goal_witness:
  "\<exists>m. spin_once example_config (Rudder_timer True False) example_pending = Some m
      \<and> rudder_actuation_action_client m = rudder_actuation_action_client example_pending"
  using timed_out_submission_sends_no_goal[of example_config example_pending]
  by (simp del: spin_once.simps)

theorem rejected_goal_ends_the_request_witness:
  "attached example_pending 0 = Some Goal_response_callback
   \<and> (\<exists>n'. spin_once example_config (Goal_response 0 None) example_pending = Some n'
          \<and> attached n' 0 = None
          \<and> (\<exists>m. spin_once example_config (Rudder_timer True True) n' = Some m
                 \<and> outstanding m = outstanding n' + 1))"
proof -
  have h: "(None :: bool option) \<noteq> Some True" by simp
  from rejected_goal_ends_the_request[OF example_pending_attached h, of example_config]
  obtain n' where "spin_once example_config (Goal_response 0 None) example_pending = Some n'"
    "attached n' 0 = shown_as Rejected"
    "\<exists>m. spin_once example_config (Rudder_timer True True) n' = Some m
                 \<and> outstanding m = outstanding n' + 1"
    by blast
  with example_pending_attached show ?thesis by auto
qed

theorem request_lifecycle_follows_state_machine_witness:
  "0 < length (rudder_actuation_action_client example_pending)
   \<and> attached example_pending 0 = shown_as Pending
   \<and> (\<exists>n'. spin example_config
          [Goal_response 0 (Some True), Feedback 0 (1 / 10), Feedback 0 (3 / 10),
           Get_result 0 (2 / 100)] example_pending = Some n'
        \<and> attached n' 0 = shown_as Completed)"
proof -
  let ?es = "[Goal_response 0 (Some True), Feedback 0 (1 / 10), Feedback 0 (3 / 10),
           Get_result 0 (2 / 100)]"
  have i: "0 < length (rudder_actuation_action_client example_pending)"
    by (simp add: example_pending_client)
  have p: "attached example_pending 0 = shown_as Pending"
    by (simp add: example_pending_attached)
  from example_run obtain n' where r: "spin example_config ?es example_pending = Some n'" by blast
  from request_lifecycle_follows_state_machine[OF r i p]
  obtain s' where "spec_run Pending (request_events 0 ?es) = Some s'" "attached n' 0 = shown_as s'"
    by blast
  then have "attached n' 0 = shown_as Completed" by simp
  with i p r show ?thesis by blast
qed

theorem result_only_when_completed_witness:
  "0 < length (rudder_actuation_action_client example_pending)
   \<and> attached example_pending 0 = shown_as Pending
   \<and> (\<exists>n'. spin example_config
          [Goal_response 0 (Some True), Feedback 0 (1 / 10), Feedback 0 (3 / 10),
           Get_result 0 (2 / 100)] example_pending = Some n'
        \<and> residuals_logged (logger n') = [2 / 100])"
proof -
  let ?es = "[Goal_response 0 (Some True), Feedback 0 (1 / 10), Feedback 0 (3 / 10),
           Get_result 0 (2 / 100)]"
  have i: "0 < length (rudder_actuation_action_client example_pending)"
    by (simp add: example_pending_client)
  have p: "attached example_pending 0 = shown_as Pending"
    by (simp add: example_pending_attached)
  have l: "residuals_logged (logger example_pending) = []"
    by (simp add: example_pending_def init_node_def callback_defs residuals_logged_def)
  from example_run obtain n' where r: "spin example_config ?es example_pending = Some n'" by blast
  from result_only_when_completed[OF r i p]
  have "residuals_logged (logger n') = residuals_logged (logger example_pending) @ results_delivered ?es"
    by blast
  then have "residuals_logged (logger n') = [2 / 100]"
    by (simp add: l results_delivered_def)
  with i p r show ?thesis by blast
qed

theorem feedback_updates_only_rudder_angle_witness:
  "\<exists>n n'. spin_once example_config (Goal_response 0 (Some True)) example_pending = Some n
      \<and> spin_once example_config (Feedback 0 (3 / 10)) n = Some n'
      \<and> rudder_angle n' = 3 / 10
      \<and> PhysicsEngineNode.desired_heading n' = PhysicsEngineNode.desired_heading n
      \<and> rudder_actuation_action_client n' = rudder_actuation_action_client n"
proof -
  have "\<exists>n. spin_once example_config (Goal_response 0 (Some True)) example_pending = Some n
      \<and> attached n 0 = Some Get_result_callback"
    by (simp add: attached_def example_pending_client callback_defs)
  then obtain n where n: "spin_once example_config (Goal_response 0 (Some True)) example_pending = Some n"
    and a: "attached n 0 = Some Get_result_callback" by blast
  from a have "\<exists>n'. spin_once example_config (Feedback 0 (3 / 10)) n = Some n'" by simp
  then obtain n' where f: "spin_once example_config (Feedback 0 (3 / 10)) n = Some n'" by blast
  from feedback_updates_only_rudder_angle[OF f] n f show ?thesis by blast
qed

theorem published_gps_and_wind_are_zero_witness:
  "\<exists>n. spin example_config [Publish_timer, Rudder_timer True False, Publish_timer] init_node = Some n
      \<and> gps_pub n =
          [\<lparr>lat_lon = \<lparr>latitude = 0, longitude = 0\<rparr>,
            GPS.speed = \<lparr>HelperSpeed.speed = 0\<rparr>,
            GPS.heading = \<lparr>HelperHeading.heading = 0\<rparr>\<rparr>,
           \<lparr>lat_lon = \<lparr>latitude = 0, longitude = 0\<rparr>,
            GPS.speed = \<lparr>HelperSpeed.speed = 0\<rparr>,
            GPS.heading = \<lparr>HelperHeading.heading = 0\<rparr>\<rparr>]
      \<and> length (wind_sensors_pub n) = 2"
proof -
  let ?es = "[Publish_timer, Rudder_timer True False, Publish_timer]"
  have "\<exists>n. spin example_config ?es init_node = Some n" by simp
  then obtain n where r: "spin example_config ?es init_node = Some n" by blast
  have c: "publish_cycles ?es = 2" by (simp add: publish_cycles_def)
  have g: "gps_pub init_node = []" "wind_sensors_pub init_node = []"
    by (simp_all add: init_node_def)
  from published_gps_and_wind_are_zero[OF r] r show ?thesis
    unfolding c g by (simp add: numeral_2_eq_2 del: spin.simps)
qed

theorem kinematics_header_and_counter_witness:
  "\<exists>n. spin example_config_0_7 [Publish_timer, Publish_timer, Publish_timer] init_node = Some n
      \<and> publish_counter n = 3
      \<and> map header (kinematics_pub n) =
          [\<lparr>stamp = \<lparr>sec = 0, nanosec = 0\<rparr>, frame_id = ''0''\<rparr>,
           \<lparr>stamp = \<lparr>sec = 0, nanosec = 700000000\<rparr>, frame_id = ''1''\<rparr>,
           \<lparr>stamp = \<lparr>sec = 1, nanosec = 399999999\<rparr>, frame_id = ''2''\<rparr>]"
proof -
  let ?es = "[Publish_timer, Publish_timer, Publish_timer]"
  have "\<exists>n. spin example_config_0_7 ?es init_node = Some n" by simp
  then obtain n where r: "spin example_config_0_7 ?es init_node = Some n" by blast
  have c: "publish_cycles ?es = 3" by (simp add: publish_cycles_def)
  have u: "[0..<3] = [0, 1, 2]" by (simp add: upt_rec)
  have s: "py_str (int 0) = ''0''" "py_str (int 1) = ''1''" "py_str (int 2) = ''2''"
    by (simp_all add: py_str_def digit_char_def)
  from kinematics_header_and_counter[OF r]
  have "publish_counter n = 3 \<and> map header (kinematics_pub n) =
       map (\<lambda>k. \<lparr>stamp = \<lparr>sec = \<lfloor>double (3152519739159347 / 4503599627370496 * double (real k))\<rfloor>,
                           nanosec = \<lfloor>double (double (frac (double (3152519739159347 / 4503599627370496 *
                                        double (real k)))) * 10 ^ 9)\<rfloor>\<rparr>,
                  frame_id = py_str (int k)\<rparr>) [0, 1, 2]"
    unfolding c u period_0_7 by simp
  then have "publish_counter n = 3 \<and> map header (kinematics_pub n) =
          [\<lparr>stamp = \<lparr>sec = 0, nanosec = 0\<rparr>, frame_id = ''0''\<rparr>,
           \<lparr>stamp = \<lparr>sec = 0, nanosec = 700000000\<rparr>, frame_id = ''1''\<rparr>,
           \<lparr>stamp = \<lparr>sec = 1, nanosec = 399999999\<rparr>, frame_id = ''2''\<rparr>]"
    using stamp_0_7_cycle0 stamp_0_7_cycle1 stamp_0_7_cycle2 s
    by (simp only: list.map HOL.simp_thms)
  with r have "spin example_config_0_7 ?es init_node = Some n
      \<and> publish_counter n = 3
      \<and> map header (kinematics_pub n) =
          [\<lparr>stamp = \<lparr>sec = 0, nanosec = 0\<rparr>, frame_id = ''0''\<rparr>,
           \<lparr>stamp = \<lparr>sec = 0, nanosec = 700000000\<rparr>, frame_id = ''1''\<rparr>,
           \<lparr>stamp = \<lparr>sec = 1, nanosec = 399999999\<rparr>, frame_id = ''2''\<rparr>]"
    by (simp only: simp_thms)
  then show ?thesis by (rule exI)
qed

end
